theory Spec2Isabelle
  imports Complex_Main
begin

section \<open>Earth Engine values, dates and errors\<close>

text \<open>
  The script \<^verbatim>\<open>environment-data.js\<close> is a client of the Earth Engine library. The
  library objects it touches are modelled here by their documented behaviour; the
  script itself (sections 1 to 3 of the file) is translated statement by statement
  further below, every \<^verbatim>\<open>var\<close> becoming a definition of the same name.

  An \<^verbatim>\<open>ee.Date\<close> is an instant in milliseconds since the epoch (UTC). Numbers are
  reals: the double arithmetic of the platform is idealised, so a value computed here
  is the exact value that the platform rounds.
\<close>

datatype val = Null | Num real | Str string | DateV int

datatype error =
    NullArgument string
  | MissingKey string
  | BandNotFound string
  | InvalidDate
  | UnknownVariable string

type_synonym 'a result = "error + 'a"

definition bindE :: "'a result \<Rightarrow> ('a \<Rightarrow> 'b result) \<Rightarrow> 'b result" where
  "bindE r f = (case r of Inl e \<Rightarrow> Inl e | Inr v \<Rightarrow> f v)"

fun mapE :: "('a \<Rightarrow> 'b result) \<Rightarrow> 'a list \<Rightarrow> 'b list result" where
  "mapE f [] = Inr []"
| "mapE f (x # xs) = bindE (f x) (\<lambda>y. bindE (mapE f xs) (\<lambda>ys. Inr (y # ys)))"

subsection \<open>Calendar arithmetic of \<^verbatim>\<open>ee.Date.advance\<close>\<close>

datatype timeUnit = Hour | Day | Year

definition msPerHour :: int where "msPerHour = 3600000"
definition msPerDay :: int where "msPerDay = 86400000"

definition leapYear :: "int \<Rightarrow> bool" where
  "leapYear y = (y mod 4 = 0 \<and> (y mod 100 \<noteq> 0 \<or> y mod 400 = 0))"

definition daysInMonth :: "int \<Rightarrow> int \<Rightarrow> int" where
  "daysInMonth y m =
     (if m = 2 then (if leapYear y then 29 else 28)
      else if m = 4 \<or> m = 6 \<or> m = 9 \<or> m = 11 then 30 else 31)"

text \<open>Day number (days since 1970-01-01) of a proleptic Gregorian date, and back.\<close>

definition daysFromCivil :: "int \<Rightarrow> int \<Rightarrow> int \<Rightarrow> int" where
  "daysFromCivil y m d =
     (let y1 = (if m \<le> 2 then y - 1 else y);
          era = y1 div 400;
          yoe = y1 - era * 400;
          mp = (m + 9) mod 12;
          doy = (153 * mp + 2) div 5 + d - 1;
          doe = yoe * 365 + yoe div 4 - yoe div 100 + doy
      in era * 146097 + doe - 719468)"

definition civilFromDays :: "int \<Rightarrow> int \<times> int \<times> int" where
  "civilFromDays z =
     (let z1 = z + 719468;
          era = z1 div 146097;
          doe = z1 - era * 146097;
          yoe = (doe - doe div 1460 + doe div 36524 - doe div 146096) div 365;
          doy = doe - (365 * yoe + yoe div 4 - yoe div 100);
          mp = (5 * doy + 2) div 153;
          d = doy - (153 * mp + 2) div 5 + 1;
          m = (if mp < 10 then mp + 3 else mp - 9);
          y = yoe + era * 400
      in (if m \<le> 2 then y + 1 else y, m, d))"

text \<open>
  \<^verbatim>\<open>date.advance(delta, unit)\<close>: hours and days are fixed spans of UTC time; a
  year keeps month, day and time of day and moves the year number, the 29th of
  February falling back to the 28th in a common year.
\<close>

definition Date_advance :: "int \<Rightarrow> timeUnit \<Rightarrow> int \<Rightarrow> int" where
  "Date_advance delta u t =
     (case u of
        Hour \<Rightarrow> t + delta * msPerHour
      | Day \<Rightarrow> t + delta * msPerDay
      | Year \<Rightarrow>
          (case civilFromDays (t div msPerDay) of
             (y, m, d) \<Rightarrow>
               daysFromCivil (y + delta) m (min d (daysInMonth (y + delta) m)) * msPerDay
                 + t mod msPerDay))"

text \<open>The calendar field that \<^verbatim>\<open>ee.Filter.calendarRange\<close> reads off an instant.\<close>

definition calendarField :: "timeUnit \<Rightarrow> int \<Rightarrow> int" where
  "calendarField u t =
     (case u of
        Hour \<Rightarrow> (t div msPerHour) mod 24
      | Day \<Rightarrow> snd (snd (civilFromDays (t div msPerDay)))
      | Year \<Rightarrow> fst (civilFromDays (t div msPerDay)))"

section \<open>Features, images and collections\<close>

text \<open>
  Rasters are sampled on the analysis grid: a geometry gives, for a nominal scale, the
  grid cells it intersects, and a band gives the value of a cell, or nothing where the
  cell is masked. Every intersected cell counts once in a statistic.
\<close>

type_synonym pixel = "int \<times> int"
type_synonym geometry = "nat \<Rightarrow> pixel list"
type_synonym band = "pixel \<Rightarrow> real option"
type_synonym dictionary = "(string \<times> val) list"

record feature =
  geometry :: geometry
  properties :: dictionary

record image =
  time_start :: "int option"
  time_end :: "int option"
  bands :: "(string \<times> band) list"

definition nullGeometry :: geometry where
  "nullGeometry = (\<lambda>scale. [])"

text \<open>\<^verbatim>\<open>ee.Feature(geometry, properties)\<close>, with \<^verbatim>\<open>null\<close> for no geometry.\<close>

definition Feature :: "geometry option \<Rightarrow> dictionary \<Rightarrow> feature" where
  "Feature g props =
     \<lparr>geometry = (case g of None \<Rightarrow> nullGeometry | Some s \<Rightarrow> s), properties = props\<rparr>"

text \<open>\<^verbatim>\<open>feature.get(name)\<close> is \<^verbatim>\<open>null\<close> for a property the feature does not have.\<close>

definition Feature_get :: "feature \<Rightarrow> string \<Rightarrow> val" where
  "Feature_get f name = (case map_of (properties f) name of None \<Rightarrow> Null | Some v \<Rightarrow> v)"

text \<open>\<^verbatim>\<open>collection.select(names)\<close> on features keeps the listed properties.\<close>

definition FeatureCollection_select :: "string list \<Rightarrow> feature list \<Rightarrow> feature list" where
  "FeatureCollection_select names fc =
     map (\<lambda>f. f\<lparr>properties := filter (\<lambda>kv. fst kv \<in> set names) (properties f)\<rparr>) fc"

text \<open>
  \<^verbatim>\<open>collection.filter(ee.Filter.eq(name, value))\<close>: for a value that is not null,
  the features that have the property with that value, in the order of the collection.
  What the platform does with a null value (no feature passes, the features without the
  property pass, or the filter is refused) is not fixed here: it is the parameter
  \<open>onNull\<close>.
\<close>

definition FeatureCollection_filter_eq ::
  "(string \<Rightarrow> feature list \<Rightarrow> feature list result) \<Rightarrow> string \<Rightarrow> val \<Rightarrow> feature list \<Rightarrow>
     feature list result" where
  "FeatureCollection_filter_eq onNull name v fc =
     (if v = Null then onNull name fc
      else Inr (filter (\<lambda>f. map_of (properties f) name = Some v) fc))"

text \<open>\<^verbatim>\<open>collection.first()\<close> is \<^verbatim>\<open>null\<close> on an empty collection.\<close>

definition first :: "'a list \<Rightarrow> 'a option" where
  "first xs = (case xs of [] \<Rightarrow> None | x # _ \<Rightarrow> Some x)"

text \<open>A method called on \<^verbatim>\<open>null\<close> fails: the receiver is a required argument.\<close>

definition Feature_geometry :: "feature option \<Rightarrow> geometry result" where
  "Feature_geometry f =
     (case f of None \<Rightarrow> Inl (NullArgument ''feature'') | Some x \<Rightarrow> Inr (geometry x))"

text \<open>
  \<^verbatim>\<open>ee.Date(value)\<close>: a number is an instant in milliseconds, a date is itself, a
  string is parsed (by the parser of the platform, a parameter here), \<^verbatim>\<open>null\<close> is an
  error.
\<close>

definition Date :: "(string \<Rightarrow> int option) \<Rightarrow> val \<Rightarrow> int result" where
  "Date parse v =
     (case v of
        Null \<Rightarrow> Inl InvalidDate
      | Num r \<Rightarrow> Inr (floor r)
      | DateV t \<Rightarrow> Inr t
      | Str s \<Rightarrow> (case parse s of None \<Rightarrow> Inl InvalidDate | Some t \<Rightarrow> Inr t))"

subsection \<open>Images\<close>

text \<open>
  \<^verbatim>\<open>image.select(name)\<close> keeps one band and the properties of the image; it fails on
  a band the image does not have.
\<close>

definition Image_select :: "string \<Rightarrow> image \<Rightarrow> image result" where
  "Image_select name img =
     (case map_of (bands img) name of
        None \<Rightarrow> Inl (BandNotFound name)
      | Some b \<Rightarrow> Inr (img\<lparr>bands := [(name, b)]\<rparr>))"

text \<open>
  Arithmetic with a constant works cell by cell on every band, keeps the band names and
  the masks, and drops the properties of the image. The platform computes in double
  precision; the values here are the exact reals that it rounds, so a computed value is
  compared below to within a tolerance, never as an exact decimal.
\<close>

definition Image_arith :: "(real \<Rightarrow> real) \<Rightarrow> image \<Rightarrow> image" where
  "Image_arith f img =
     \<lparr>time_start = None, time_end = None,
      bands = map (\<lambda>nb. (fst nb, map_option f \<circ> snd nb)) (bands img)\<rparr>"

definition Image_multiply :: "real \<Rightarrow> image \<Rightarrow> image" where
  "Image_multiply c img = Image_arith (\<lambda>x. x * c) img"

definition Image_subtract :: "real \<Rightarrow> image \<Rightarrow> image" where
  "Image_subtract c img = Image_arith (\<lambda>x. x - c) img"

text \<open>
  \<^verbatim>\<open>dest.copyProperties(source, ['system:time_start', 'system:time_end'])\<close>.
\<close>

definition Image_copyProperties :: "image \<Rightarrow> image \<Rightarrow> image" where
  "Image_copyProperties source dest =
     dest\<lparr>time_start := time_start source, time_end := time_end source\<rparr>"

text \<open>
  \<^verbatim>\<open>collection.filterDate(start, end)\<close> keeps the images whose
  \<^verbatim>\<open>system:time_start\<close> is at or after \<^verbatim>\<open>start\<close> and before \<^verbatim>\<open>end\<close>.
\<close>

definition inDateRange :: "int \<Rightarrow> int \<Rightarrow> image \<Rightarrow> bool" where
  "inDateRange s e img =
     (case time_start img of None \<Rightarrow> False | Some t \<Rightarrow> s \<le> t \<and> t < e)"

definition filterDate :: "int \<Rightarrow> int \<Rightarrow> image list \<Rightarrow> image list" where
  "filterDate s e ic = filter (inDateRange s e) ic"

text \<open>
  \<^verbatim>\<open>ee.Filter.calendarRange(start, end, field)\<close> keeps the images whose calendar
  field of \<^verbatim>\<open>system:time_start\<close> lies between the two bounds, both included.
\<close>

definition Filter_calendarRange :: "int \<Rightarrow> int \<Rightarrow> timeUnit \<Rightarrow> image \<Rightarrow> bool" where
  "Filter_calendarRange lo hi field img =
     (case time_start img of
        None \<Rightarrow> False
      | Some t \<Rightarrow>
          (if lo \<le> hi then lo \<le> calendarField field t \<and> calendarField field t \<le> hi
           else lo \<le> calendarField field t \<or> calendarField field t \<le> hi))"

subsection \<open>Band expressions\<close>

text \<open>
  The expression language of \<^verbatim>\<open>image.expression\<close>, as far as the script uses it. An
  expression is evaluated cell by cell; a cell is masked in the result when it is masked
  in an operand. The band of the result carries the name of the first band the
  expression reads.
\<close>

datatype expr =
    Var string
  | Const real
  | Add expr expr
  | Pow expr nat
  | Sqrt expr

fun evalExpr :: "(string \<Rightarrow> band option) \<Rightarrow> expr \<Rightarrow> pixel \<Rightarrow> real option" where
  "evalExpr env (Var x) p = (case env x of None \<Rightarrow> None | Some b \<Rightarrow> b p)"
| "evalExpr env (Const c) p = Some c"
| "evalExpr env (Add a b) p =
     (case evalExpr env a p of
        None \<Rightarrow> None
      | Some x \<Rightarrow> (case evalExpr env b p of None \<Rightarrow> None | Some y \<Rightarrow> Some (x + y)))"
| "evalExpr env (Pow a n) p = map_option (\<lambda>x. x ^ n) (evalExpr env a p)"
| "evalExpr env (Sqrt a) p = map_option sqrt (evalExpr env a p)"

fun exprVars :: "expr \<Rightarrow> string list" where
  "exprVars (Var x) = [x]"
| "exprVars (Const c) = []"
| "exprVars (Add a b) = exprVars a @ exprVars b"
| "exprVars (Pow a n) = exprVars a"
| "exprVars (Sqrt a) = exprVars a"

definition firstBand :: "image \<Rightarrow> (string \<times> band) option" where
  "firstBand img = first (bands img)"

definition Image_expression :: "expr \<Rightarrow> (string \<times> image) list \<Rightarrow> image result" where
  "Image_expression e vars =
     (case filter (\<lambda>x. map_of vars x = None) (exprVars e) of
        x # _ \<Rightarrow> Inl (UnknownVariable x)
      | [] \<Rightarrow>
          (let env = (\<lambda>x. case map_of vars x of
                             None \<Rightarrow> None
                           | Some img \<Rightarrow> map_option snd (firstBand img));
               name = (case exprVars e of
                         [] \<Rightarrow> ''constant''
                       | x # _ \<Rightarrow>
                           (case map_of vars x of
                              None \<Rightarrow> ''constant''
                            | Some img \<Rightarrow>
                                (case firstBand img of
                                   None \<Rightarrow> ''constant''
                                 | Some nb \<Rightarrow> fst nb)))
           in Inr \<lparr>time_start = None, time_end = None,
                   bands = [(name, evalExpr env e)]\<rparr>))"

subsection \<open>Reducers and \<^verbatim>\<open>reduceRegion\<close>\<close>

text \<open>
  A reducer is the list of its named outputs. Each output is \<^verbatim>\<open>null\<close> on no input.
\<close>

type_synonym reducer = "(string \<times> (real list \<Rightarrow> val)) list"

definition meanOf :: "real list \<Rightarrow> val" where
  "meanOf xs = (if xs = [] then Null else Num (sum_list xs / real (length xs)))"

definition minOf :: "real list \<Rightarrow> val" where
  "minOf xs = (case xs of [] \<Rightarrow> Null | x # r \<Rightarrow> Num (fold min r x))"

definition maxOf :: "real list \<Rightarrow> val" where
  "maxOf xs = (case xs of [] \<Rightarrow> Null | x # r \<Rightarrow> Num (fold max r x))"

definition Reducer_mean :: reducer where "Reducer_mean = [(''mean'', meanOf)]"
definition Reducer_min :: reducer where "Reducer_min = [(''min'', minOf)]"
definition Reducer_max :: reducer where "Reducer_max = [(''max'', maxOf)]"

text \<open>
  \<^verbatim>\<open>reducer.combine(reducer2, outputPrefix, sharedInputs)\<close> with shared inputs: the
  outputs of both, those of the second under the prefix.
\<close>

definition Reducer_combine :: "reducer \<Rightarrow> reducer \<Rightarrow> string \<Rightarrow> bool \<Rightarrow> reducer" where
  "Reducer_combine r1 r2 outputPrefix sharedInputs =
     r1 @ map (\<lambda>nf. (outputPrefix @ fst nf, snd nf)) r2"

text \<open>The unmasked values of a band under a geometry.\<close>

definition valuesUnder :: "band \<Rightarrow> geometry \<Rightarrow> nat \<Rightarrow> real list" where
  "valuesUnder b g scale = List.map_filter b (g scale)"

text \<open>
  \<^verbatim>\<open>image.reduceRegion({reducer, geometry, scale})\<close>: one entry for every band and
  every output of the reducer, under the name of the band when the reducer has a single
  output and under \<^verbatim>\<open>band_output\<close> otherwise.
\<close>

definition Image_reduceRegion :: "reducer \<Rightarrow> geometry \<Rightarrow> nat \<Rightarrow> image \<Rightarrow> dictionary" where
  "Image_reduceRegion r g scale img =
     concat (map (\<lambda>nb.
        map (\<lambda>nf. (if length r = 1 then fst nb else fst nb @ ''_'' @ fst nf,
                    snd nf (valuesUnder (snd nb) g scale))) r) (bands img))"

text \<open>\<^verbatim>\<open>dictionary.get(key)\<close> fails on a key the dictionary does not have.\<close>

definition Dictionary_get :: "dictionary \<Rightarrow> string \<Rightarrow> val result" where
  "Dictionary_get d k = (case map_of d k of None \<Rightarrow> Inl (MissingKey k) | Some v \<Rightarrow> Inr v)"

text \<open>
  \<^verbatim>\<open>ee.Algorithms.If(condition, trueCase, falseCase)\<close> on a possibly null object:
  the false case when the condition is \<^verbatim>\<open>null\<close>, otherwise the true case, which is
  the only one to read the object. The case not chosen is not evaluated.
\<close>

definition Algorithms_If :: "'c option \<Rightarrow> ('c \<Rightarrow> 'a result) \<Rightarrow> 'a result \<Rightarrow> 'a result" where
  "Algorithms_If condition trueCase falseCase =
     (case condition of None \<Rightarrow> falseCase | Some c \<Rightarrow> trueCase c)"

text \<open>
  \<^verbatim>\<open>ee.Terrain.slope(input)\<close> computes, from the first band of an elevation image, a
  band called \<^verbatim>\<open>slope\<close>. The slope of a cell depends on its neighbours; the
  algorithm is a parameter.
\<close>

definition Terrain_slope :: "(band \<Rightarrow> band) \<Rightarrow> image \<Rightarrow> image result" where
  "Terrain_slope alg img =
     (case firstBand img of
        None \<Rightarrow> Inl (BandNotFound ''elevation'')
      | Some nb \<Rightarrow> Inr \<lparr>time_start = None, time_end = None,
                         bands = [(''slope'', alg (snd nb))]\<rparr>)"

text \<open>
  \<^verbatim>\<open>collection.map(algorithm)\<close> applies the algorithm to every element. An error
  in one element is the error of the collection.
\<close>

definition FeatureCollection_map ::
  "(feature \<Rightarrow> feature result) \<Rightarrow> feature list \<Rightarrow> feature list result" where
  "FeatureCollection_map algorithm fc = mapE algorithm fc"

text \<open>
  \<^verbatim>\<open>Export.table.toDrive\<close> writes one row for every feature of the collection, with
  the columns named by the selectors, in their order.
\<close>

record table =
  folder :: string
  description :: string
  fileFormat :: string
  header :: "string list"
  rows :: "val list list"

definition Export_table_toDrive ::
  "feature list result \<Rightarrow> string \<Rightarrow> string \<Rightarrow> string \<Rightarrow> string list \<Rightarrow> table result" where
  "Export_table_toDrive collection dir desc fmt sels =
     bindE collection (\<lambda>fc.
       Inr \<lparr>folder = dir, description = desc, fileFormat = fmt, header = sels,
            rows = map (\<lambda>f. map (Feature_get f) sels) fc\<rparr>)"

section \<open>The script, section 1: data loading\<close>

text \<open>
  The assets and catalogues that the script names, and the three services of the
  platform that are parameters of the model.
\<close>

record earthEngine =
  FireNew :: "feature list"
  Non_FireNew :: "feature list"
  MOD09GA_006_NDVI :: "image list"
  MOD11A1 :: "image list"
  ERA5_LAND_HOURLY :: "image list"
  NASADEM_HGT :: image
  GPW_Population_Density :: "image list"
  slopeAlgorithm :: "band \<Rightarrow> band"
  parseDate :: "string \<Rightarrow> int option"
  filterEqNull :: "string \<Rightarrow> feature list \<Rightarrow> feature list result"

definition Fire :: "earthEngine \<Rightarrow> feature list" where
  "Fire ee =
     FeatureCollection_select [''ID'', ''CONT_DATE'', ''Lat'', ''Long'', ''D_Road'', ''D_Water'']
       (FireNew ee)"

definition NonFire :: "earthEngine \<Rightarrow> feature list" where
  "NonFire ee =
     FeatureCollection_select [''ID'', ''CONT_DATE'', ''Lat'', ''Long'', ''D_Road'', ''D_Water'']
       (Non_FireNew ee)"

definition ndvi :: "earthEngine \<Rightarrow> image list" where
  "ndvi ee = MOD09GA_006_NDVI ee"

definition temperature :: "earthEngine \<Rightarrow> image list result" where
  "temperature ee =
     bindE (mapE (Image_select ''LST_Day_1km'') (MOD11A1 ee)) (\<lambda>selected.
       Inr (map (\<lambda>img.
         Image_copyProperties img (Image_subtract 273.15 (Image_multiply 0.02 img)))
         selected))"

definition ERA5 :: "earthEngine \<Rightarrow> image list" where
  "ERA5 ee = filter (Filter_calendarRange 14 14 Hour) (ERA5_LAND_HOURLY ee)"

definition dem :: "earthEngine \<Rightarrow> image result" where
  "dem ee = Image_select ''elevation'' (NASADEM_HGT ee)"

definition slope :: "earthEngine \<Rightarrow> image result" where
  "slope ee = bindE (dem ee) (Terrain_slope (slopeAlgorithm ee))"

definition population :: "earthEngine \<Rightarrow> image list" where
  "population ee = GPW_Population_Density ee"

definition scale :: nat where
  "scale = 1000"

section \<open>The script, section 2: the extraction function\<close>

text \<open>The date windows of \<^verbatim>\<open>extractData\<close>, as functions of the date of the event.\<close>

definition start :: "int \<Rightarrow> int" where
  "start fireDate = Date_advance (-1) Day fireDate"

definition end' :: "int \<Rightarrow> int" where
  "end' fireDate = Date_advance 1 Day fireDate"

definition popStart :: "int \<Rightarrow> int" where
  "popStart fireDate = Date_advance (-3) Year fireDate"

definition popEnd :: "int \<Rightarrow> int" where
  "popEnd fireDate = Date_advance 3 Year fireDate"

text \<open>The images found, which can be \<^verbatim>\<open>null\<close>.\<close>

definition temperatureImage :: "earthEngine \<Rightarrow> int \<Rightarrow> image option result" where
  "temperatureImage ee fireDate =
     bindE (temperature ee) (\<lambda>ic. Inr (first (filterDate (start fireDate) (end' fireDate) ic)))"

definition ndviImage :: "earthEngine \<Rightarrow> int \<Rightarrow> image option" where
  "ndviImage ee fireDate = first (filterDate (start fireDate) (end' fireDate) (ndvi ee))"

definition populationImage :: "earthEngine \<Rightarrow> int \<Rightarrow> image option" where
  "populationImage ee fireDate =
     first (filterDate (popStart fireDate) (popEnd fireDate) (population ee))"

definition ERA5Image :: "earthEngine \<Rightarrow> int \<Rightarrow> image option" where
  "ERA5Image ee fireDate = first (filterDate (start fireDate) (end' fireDate) (ERA5 ee))"

text \<open>Temperature: mean, minimum and maximum of the image, or three nulls.\<close>

definition tempStats :: "geometry \<Rightarrow> image option \<Rightarrow> dictionary result" where
  "tempStats geom temperatureImg =
     Algorithms_If temperatureImg
       (\<lambda>img. Inr (Image_reduceRegion
          (Reducer_combine (Reducer_combine Reducer_mean Reducer_min '''' True)
             Reducer_max '''' True)
          geom scale img))
       (Inr [(''LST_Day_1km_mean'', Null), (''LST_Day_1km_min'', Null),
             (''LST_Day_1km_max'', Null)])"

definition ndviMean :: "geometry \<Rightarrow> image option \<Rightarrow> val result" where
  "ndviMean geom ndviImg =
     Algorithms_If ndviImg
       (\<lambda>img. Dictionary_get (Image_reduceRegion Reducer_mean geom scale img) ''NDVI'')
       (Inr Null)"

definition popMean :: "geometry \<Rightarrow> image option \<Rightarrow> val result" where
  "popMean geom populationImg =
     Algorithms_If populationImg
       (\<lambda>img. Dictionary_get (Image_reduceRegion Reducer_mean geom scale img)
          ''population_density'')
       (Inr Null)"

text \<open>The expression \<^verbatim>\<open>sqrt(u**2 + v**2)\<close> of the wind speed.\<close>

definition windExpression :: expr where
  "windExpression = Sqrt (Add (Pow (Var ''u'') 2) (Pow (Var ''v'') 2))"

definition era5Stats :: "geometry \<Rightarrow> image option \<Rightarrow> dictionary result" where
  "era5Stats geom ERA5Img =
     Algorithms_If ERA5Img
       (\<lambda>img.
          bindE (Image_select ''u_component_of_wind_10m'' img) (\<lambda>u.
          bindE (Image_select ''v_component_of_wind_10m'' img) (\<lambda>v.
          bindE (Image_expression windExpression [(''u'', u), (''v'', v)]) (\<lambda>speed.
          bindE (Dictionary_get (Image_reduceRegion Reducer_mean geom scale speed)
                   ''u_component_of_wind_10m'') (\<lambda>wind.
          bindE (Image_select ''total_evaporation_hourly'' img) (\<lambda>evaporation.
          bindE (Dictionary_get (Image_reduceRegion Reducer_mean geom scale evaporation)
                   ''total_evaporation_hourly'') (\<lambda>evap.
          bindE (Image_select ''total_precipitation_hourly'' img) (\<lambda>precipitation.
          bindE (Dictionary_get (Image_reduceRegion Reducer_mean geom scale precipitation)
                   ''total_precipitation_hourly'') (\<lambda>precip.
          Inr [(''wind'', wind), (''evap'', evap), (''precip'', precip)])))))))))
       (Inr [(''wind'', Null), (''evap'', Null), (''precip'', Null)])"

text \<open>The static rasters.\<close>

definition slopeMean :: "earthEngine \<Rightarrow> geometry \<Rightarrow> val result" where
  "slopeMean ee geom =
     bindE (slope ee) (\<lambda>img.
       Dictionary_get (Image_reduceRegion Reducer_mean geom scale img) ''slope'')"

definition elevationMean :: "earthEngine \<Rightarrow> geometry \<Rightarrow> val result" where
  "elevationMean ee geom =
     bindE (dem ee) (\<lambda>img.
       Dictionary_get (Image_reduceRegion Reducer_mean geom scale img) ''elevation'')"

definition extractData :: "earthEngine \<Rightarrow> feature \<Rightarrow> feature list \<Rightarrow> val \<Rightarrow> feature result" where
  "extractData ee feat featureCollection fireStatus =
     (let id = Feature_get feat ''ID'';
          latitude = Feature_get feat ''Lat'';
          longitude = Feature_get feat ''Long'';
          Dis_Road = Feature_get feat ''D_Road'';
          Dis_Water = Feature_get feat ''D_Water''
      in
      bindE (FeatureCollection_filter_eq (filterEqNull ee) ''ID'' id featureCollection)
        (\<lambda>matched.
      bindE (Feature_geometry (first matched)) (\<lambda>geom.
      bindE (Date (parseDate ee) (Feature_get feat ''CONT_DATE'')) (\<lambda>fireDate.
      bindE (temperatureImage ee fireDate) (\<lambda>temperatureImg.
      bindE (tempStats geom temperatureImg) (\<lambda>tempStat.
      bindE (ndviMean geom (ndviImage ee fireDate)) (\<lambda>ndviM.
      bindE (popMean geom (populationImage ee fireDate)) (\<lambda>popM.
      bindE (era5Stats geom (ERA5Image ee fireDate)) (\<lambda>era5Stat.
      bindE (slopeMean ee geom) (\<lambda>slopeM.
      bindE (elevationMean ee geom) (\<lambda>elevationM.
      bindE (Dictionary_get tempStat ''LST_Day_1km_mean'') (\<lambda>tMean.
      bindE (Dictionary_get tempStat ''LST_Day_1km_min'') (\<lambda>tMin.
      bindE (Dictionary_get tempStat ''LST_Day_1km_max'') (\<lambda>tMax.
      bindE (Dictionary_get era5Stat ''wind'') (\<lambda>wind.
      bindE (Dictionary_get era5Stat ''evap'') (\<lambda>evap.
      bindE (Dictionary_get era5Stat ''precip'') (\<lambda>precip.
        Inr (Feature None
          [(''ID'', id),
           (''creationDate'', DateV (start fireDate)),
           (''Lat'', latitude), (''Long'', longitude),
           (''temperatureMean'', tMean),
           (''Min_Temperature'', tMin),
           (''Max_Temperature'', tMax),
           (''ndviMean'', ndviM),
           (''slope'', slopeM),
           (''elevation'', elevationM),
           (''Dis_Road'', Dis_Road),
           (''Dis_Water'', Dis_Water),
           (''population'', popM),
           (''windspeed'', wind),
           (''evaporation'', evap),
           (''precipitation'', precip),
           (''fire'', fireStatus)]))))))))))))))))))"

section \<open>The script, section 3: the two collections and their export\<close>

definition FireVariables :: "earthEngine \<Rightarrow> feature list result" where
  "FireVariables ee =
     FeatureCollection_map (\<lambda>feat. extractData ee feat (Fire ee) (Num 1)) (Fire ee)"

definition NonFireVariables :: "earthEngine \<Rightarrow> feature list result" where
  "NonFireVariables ee =
     FeatureCollection_map (\<lambda>feat. extractData ee feat (NonFire ee) (Num 0)) (NonFire ee)"

definition selectors :: "string list" where
  "selectors =
     [''ID'', ''creationDate'', ''Lat'', ''Long'', ''temperatureMean'', ''Min_Temperature'',
      ''Max_Temperature'', ''ndviMean'', ''slope'', ''elevation'', ''Dis_Water'', ''Dis_Road'',
      ''population'', ''windspeed'', ''evaporation'', ''precipitation'', ''fire'']"

definition Fire_Data_Corrected :: "earthEngine \<Rightarrow> table result" where
  "Fire_Data_Corrected ee =
     Export_table_toDrive (FireVariables ee) ''Fire'' ''Fire_Data_Corrected'' ''CSV'' selectors"

definition Non_Fire_Data_Corrected :: "earthEngine \<Rightarrow> table result" where
  "Non_Fire_Data_Corrected ee =
     Export_table_toDrive (NonFireVariables ee) ''Fire'' ''Non_Fire_Data_Corrected'' ''CSV''
       selectors"

section \<open>Well-formed inputs\<close>

text \<open>
  The conditions under which the script meets no error: the ID of the event finds a
  feature in the backing collection, the event carries a readable date, and the
  catalogues carry the bands the script reads.
\<close>

definition isOK :: "'a result \<Rightarrow> bool" where
  "isOK r = (case r of Inl e \<Rightarrow> False | Inr v \<Rightarrow> True)"

text \<open>The features that the extraction finds for the ID of an event.\<close>

abbreviation idMatches :: "earthEngine \<Rightarrow> feature \<Rightarrow> feature list \<Rightarrow> feature list result" where
  "idMatches ee feat fc \<equiv>
     FeatureCollection_filter_eq (filterEqNull ee) ''ID'' (Feature_get feat ''ID'') fc"

definition hasBand :: "string \<Rightarrow> image \<Rightarrow> bool" where
  "hasBand name img = (map_of (bands img) name \<noteq> None)"

definition validEvent :: "earthEngine \<Rightarrow> feature \<Rightarrow> feature list \<Rightarrow> bool" where
  "validEvent ee feat fc =
     ((case idMatches ee feat fc of Inl e \<Rightarrow> False | Inr matched \<Rightarrow> matched \<noteq> []) \<and>
      isOK (Date (parseDate ee) (Feature_get feat ''CONT_DATE'')))"

definition validCatalogues :: "earthEngine \<Rightarrow> bool" where
  "validCatalogues ee =
     (list_all (hasBand ''LST_Day_1km'') (MOD11A1 ee) \<and>
      list_all (hasBand ''NDVI'') (MOD09GA_006_NDVI ee) \<and>
      list_all (hasBand ''population_density'') (GPW_Population_Density ee) \<and>
      list_all (\<lambda>img. hasBand ''u_component_of_wind_10m'' img \<and>
                       hasBand ''v_component_of_wind_10m'' img \<and>
                       hasBand ''total_evaporation_hourly'' img \<and>
                       hasBand ''total_precipitation_hourly'' img) (ERA5_LAND_HOURLY ee) \<and>
      hasBand ''elevation'' (NASADEM_HGT ee))"

text \<open>A geometry that meets no unmasked cell of any band of an image.\<close>

definition noValidPixel :: "geometry \<Rightarrow> image \<Rightarrow> bool" where
  "noValidPixel geom img = list_all (\<lambda>nb. valuesUnder (snd nb) geom scale = []) (bands img)"

text \<open>
  The window of the specification: an image is in the half-open interval from \<open>s\<close> to
  \<open>e\<close> when its acquisition instant is at or after \<open>s\<close> and before \<open>e\<close>.
\<close>

definition inWindow :: "int \<Rightarrow> int \<Rightarrow> image \<Rightarrow> bool" where
  "inWindow s e img = (case time_start img of None \<Rightarrow> False | Some t \<Rightarrow> t \<in> {s..<e})"

text \<open>The conversion of a raw land surface temperature to degrees Celsius.\<close>

definition celsius :: "real \<Rightarrow> real" where
  "celsius raw = raw * 0.02 - 273.15"

definition celsiusImage :: "image \<Rightarrow> image" where
  "celsiusImage src =
     \<lparr>time_start = time_start src, time_end = time_end src,
      bands = (case map_of (bands src) ''LST_Day_1km'' of
                 None \<Rightarrow> []
               | Some b \<Rightarrow> [(''LST_Day_1km'', \<lambda>p. map_option celsius (b p))])\<rparr>"

text \<open>
  The Euclidean magnitude of two wind components, cell by cell: defined where both
  components are.
\<close>

definition magnitude :: "band \<Rightarrow> band \<Rightarrow> band" where
  "magnitude ub vb =
     (\<lambda>p. case ub p of
            None \<Rightarrow> None
          | Some x \<Rightarrow> (case vb p of None \<Rightarrow> None | Some y \<Rightarrow> Some (sqrt (x\<^sup>2 + y\<^sup>2))))"

text \<open>An image acquired in a given hour of the day (UTC).\<close>

definition acquiredAtHour :: "int \<Rightarrow> image \<Rightarrow> bool" where
  "acquiredAtHour h img =
     (case time_start img of None \<Rightarrow> False | Some t \<Rightarrow> (t div 3600000) mod 24 = h)"

text \<open>A field of the record that an extraction returns, when it returns one.\<close>

definition fieldOf :: "feature result \<Rightarrow> string \<Rightarrow> val option" where
  "fieldOf res name = (case res of Inl e \<Rightarrow> None | Inr r \<Rightarrow> map_of (properties r) name)"

text \<open>A field that is a number within one millionth of a given value.\<close>

definition approximately :: "real \<Rightarrow> val option \<Rightarrow> bool" where
  "approximately c x =
     (case x of Some (Num v) \<Rightarrow> \<bar>v - c\<bar> \<le> 1 / 1000000 | _ \<Rightarrow> False)"

text \<open>The number of records of a batch, when it yields records.\<close>

definition recordCount :: "feature list result \<Rightarrow> nat option" where
  "recordCount res = (case res of Inl e \<Rightarrow> None | Inr rs \<Rightarrow> Some (length rs))"

section \<open>A worked example\<close>

text \<open>
  The scenario of the specification: event \<^verbatim>\<open>A1\<close> of 2020-07-04 (the instant
  1593820800000) on a polygon of two grid cells, with catalogues that cover it, and
  variants of the catalogues with gaps.
\<close>

definition eventDate :: int where
  "eventDate = 1593820800000"

definition polygonP :: geometry where
  "polygonP = (\<lambda>s. [(0, 0), (0, 1)])"

definition eventA1 :: feature where
  "eventA1 =
     \<lparr>geometry = polygonP,
      properties = [(''ID'', Str ''A1''), (''CONT_DATE'', DateV eventDate),
                    (''Lat'', Num 34.5), (''Long'', Num (- 118.25)),
                    (''D_Road'', Num 120), (''D_Water'', Num 450)]\<rparr>"

text \<open>An event without the property \<^verbatim>\<open>ID\<close>.\<close>

definition eventNoID :: feature where
  "eventNoID =
     \<lparr>geometry = polygonP,
      properties = [(''CONT_DATE'', DateV eventDate),
                    (''Lat'', Num 34.75), (''Long'', Num (- 118.5)),
                    (''D_Road'', Num 80), (''D_Water'', Num 300)]\<rparr>"

definition snapshot :: "int \<Rightarrow> (string \<times> band) list \<Rightarrow> image" where
  "snapshot t bs = \<lparr>time_start = Some t, time_end = None, bands = bs\<rparr>"

definition uniform :: "real \<Rightarrow> band" where
  "uniform c = (\<lambda>p. Some c)"

definition masked :: band where
  "masked = (\<lambda>p. None)"

definition era5Bands :: "(string \<times> band) list" where
  "era5Bands =
     [(''u_component_of_wind_10m'', uniform 3), (''v_component_of_wind_10m'', uniform 4),
      (''total_evaporation_hourly'', uniform (- 0.001)),
      (''total_precipitation_hourly'', uniform 0.002)]"

definition exampleEE :: earthEngine where
  "exampleEE =
     \<lparr>FireNew = [eventA1],
      Non_FireNew = [eventA1],
      MOD09GA_006_NDVI = [snapshot eventDate [(''NDVI'', uniform 0.5)]],
      MOD11A1 = [snapshot eventDate [(''LST_Day_1km'', uniform 15500)]],
      ERA5_LAND_HOURLY =
        [snapshot (eventDate + 13 * 3600000) era5Bands,
         snapshot (eventDate + 14 * 3600000) era5Bands],
      NASADEM_HGT =
        \<lparr>time_start = None, time_end = None, bands = [(''elevation'', uniform 100)]\<rparr>,
      GPW_Population_Density = [snapshot 1577836800000 [(''population_density'', uniform 12)]],
      slopeAlgorithm = (\<lambda>b p. map_option (\<lambda>x. 0) (b p)),
      parseDate = (\<lambda>s. None),
      filterEqNull = (\<lambda>name fc. Inr [])\<rparr>"

text \<open>
  No snapshot in any window: the temperature and vegetation images are two days off,
  the population image is of the year 2000, and the only hourly image in the window is
  of 13:00.
\<close>

definition gapEE :: earthEngine where
  "gapEE =
     exampleEE
       \<lparr>MOD09GA_006_NDVI := [snapshot (eventDate + 2 * 86400000) [(''NDVI'', uniform 0.5)]],
        MOD11A1 := [snapshot (eventDate - 2 * 86400000) [(''LST_Day_1km'', uniform 15500)]],
        ERA5_LAND_HOURLY := [snapshot (eventDate + 13 * 3600000) era5Bands],
        GPW_Population_Density :=
          [snapshot 946684800000 [(''population_density'', uniform 12)]]\<rparr>"

text \<open>Snapshots in every window, all masked under the polygon.\<close>

definition maskedBands :: "(string \<times> band) list" where
  "maskedBands =
     [(''u_component_of_wind_10m'', masked), (''v_component_of_wind_10m'', masked),
      (''total_evaporation_hourly'', masked), (''total_precipitation_hourly'', masked)]"

definition maskedEE :: earthEngine where
  "maskedEE =
     exampleEE
       \<lparr>MOD09GA_006_NDVI := [snapshot eventDate [(''NDVI'', masked)]],
        MOD11A1 := [snapshot eventDate [(''LST_Day_1km'', masked)]],
        ERA5_LAND_HOURLY := [snapshot (eventDate + 14 * 3600000) maskedBands],
        NASADEM_HGT :=
          \<lparr>time_start = None, time_end = None, bands = [(''elevation'', masked)]\<rparr>,
        GPW_Population_Density :=
          [snapshot 1577836800000 [(''population_density'', masked)]]\<rparr>"

text \<open>
  Two daily temperature images in the window of the event: the image of the day
  before, at 300 Kelvin, and the image of the day, at 310 Kelvin.
\<close>

definition snapshot300K :: image where
  "snapshot300K = snapshot (eventDate - 86400000) [(''LST_Day_1km'', uniform 15000)]"

definition snapshot310K :: image where
  "snapshot310K = snapshot eventDate [(''LST_Day_1km'', uniform 15500)]"

definition twoSnapshotsEE :: earthEngine where
  "twoSnapshotsEE = exampleEE\<lparr>MOD11A1 := [snapshot300K, snapshot310K]\<rparr>"

text \<open>
  A fire collection of two events, the second of them without an \<^verbatim>\<open>ID\<close>, on a
  platform where a filter on a null value passes no feature; the same on a platform that
  refuses such a filter, and on one where it passes the features without the property.
\<close>

definition malformedEE :: earthEngine where
  "malformedEE = exampleEE\<lparr>FireNew := [eventA1, eventNoID]\<rparr>"

definition malformedRefusedEE :: earthEngine where
  "malformedRefusedEE =
     malformedEE\<lparr>filterEqNull := (\<lambda>name fc. Inl (NullArgument ''rightValue''))\<rparr>"

definition malformedMissingEE :: earthEngine where
  "malformedMissingEE =
     malformedEE\<lparr>filterEqNull := (\<lambda>name fc. Inr (filter (\<lambda>f. Feature_get f name = Null) fc))\<rparr>"

text \<open>
  A fire collection of two events, the second of them with a date that the platform
  cannot read.
\<close>

definition eventBadDate :: feature where
  "eventBadDate =
     \<lparr>geometry = polygonP,
      properties = [(''ID'', Str ''B3''), (''CONT_DATE'', Str ''not a date''),
                    (''Lat'', Num 34.75), (''Long'', Num (- 118.5)),
                    (''D_Road'', Num 80), (''D_Water'', Num 300)]\<rparr>"

definition badDateEE :: earthEngine where
  "badDateEE = exampleEE\<lparr>FireNew := [eventA1, eventBadDate]\<rparr>"

text \<open>An event whose ID, \<^verbatim>\<open>B2\<close>, no feature of the example collection carries.\<close>

definition eventB2 :: feature where
  "eventB2 =
     \<lparr>geometry = polygonP,
      properties = [(''ID'', Str ''B2''), (''CONT_DATE'', DateV eventDate),
                    (''Lat'', Num 34.75), (''Long'', Num (- 118.5)),
                    (''D_Road'', Num 80), (''D_Water'', Num 300)]\<rparr>"

text \<open>
  A fire collection in which two features share the ID \<^verbatim>\<open>A1\<close>; the second lies on
  another polygon, where the terrain is at 900 metres instead of 100.
\<close>

definition polygonQ :: geometry where
  "polygonQ = (\<lambda>s. [(5, 5)])"

definition eventA1twin :: feature where
  "eventA1twin = eventA1\<lparr>geometry := polygonQ\<rparr>"

definition relief :: band where
  "relief = (\<lambda>p. if p = (5, 5) then Some 900 else Some 100)"

definition duplicateEE :: earthEngine where
  "duplicateEE =
     exampleEE
       \<lparr>FireNew := [eventA1, eventA1twin],
        NASADEM_HGT :=
          \<lparr>time_start = None, time_end = None, bands = [(''elevation'', relief)]\<rparr>\<rparr>"

section \<open>Properties of the library model and of the extraction\<close>

lemma bindE_Inr [simp]: "bindE (Inr v) f = f v"
  by (simp add: bindE_def)

lemma bindE_Inl [simp]: "bindE (Inl e) f = Inl e"
  by (simp add: bindE_def)

lemma bindE_eq_Inr: "bindE r f = Inr y \<longleftrightarrow> (\<exists>v. r = Inr v \<and> f v = Inr y)"
  by (cases r) simp_all

lemma mapE_eq_Inr: "mapE f xs = Inr ys \<longleftrightarrow> list_all2 (\<lambda>x y. f x = Inr y) xs ys"
proof (induction xs arbitrary: ys)
  case Nil
  show ?case by auto
next
  case (Cons x xs)
  show ?case
    by (cases ys) (auto simp: bindE_eq_Inr Cons.IH)
qed

lemma mapE_length: "mapE f xs = Inr ys \<Longrightarrow> length ys = length xs"
  by (simp add: mapE_eq_Inr list_all2_lengthD)

lemma mapE_total: "(\<And>x. x \<in> set xs \<Longrightarrow> f x = Inr (g x)) \<Longrightarrow> mapE f xs = Inr (map g xs)"
  by (induction xs) simp_all

lemma mapE_fails: "x \<in> set xs \<Longrightarrow> f x = Inl e \<Longrightarrow> \<exists>e'. mapE f xs = Inl e'"
proof (induction xs)
  case Nil
  then show ?case by simp
next
  case (Cons a xs)
  show ?case
  proof (cases "f a")
    case (Inl e1)
    then show ?thesis by simp
  next
    case (Inr y)
    show ?thesis
    proof (cases "x = a")
      case True
      with Cons.prems Inr show ?thesis by simp
    next
      case False
      with Cons obtain e' where "mapE f xs = Inl e'" by auto
      with Inr show ?thesis by simp
    qed
  qed
qed

lemma first_filter_rel:
  "list_all2 R xs ys \<Longrightarrow> (\<And>x y. R x y \<Longrightarrow> P x = Q y) \<Longrightarrow>
     rel_option R (first (filter P xs)) (first (filter Q ys))"
  by (induction rule: list_all2_induct) (auto simp: first_def)

lemma first_eq_None: "first xs = None \<longleftrightarrow> xs = []"
  by (cases xs) (simp_all add: first_def)

lemma first_eq_Some: "first xs = Some x \<longleftrightarrow> (\<exists>r. xs = x # r)"
  by (cases xs) (auto simp add: first_def)

lemma first_filter_Some:
  "first (filter P xs) = Some x \<Longrightarrow> x \<in> set xs \<and> P x"
  by (metis first_eq_Some filter_eq_ConsD in_set_conv_decomp)

lemma map_of_reduce:
  "map_of (map (\<lambda>nb. (fst nb, h (snd nb))) bs) n = map_option h (map_of bs n)"
  by (induction bs) auto

lemma reduceRegion_mean:
  "Image_reduceRegion Reducer_mean g s img =
     map (\<lambda>nb. (fst nb, meanOf (valuesUnder (snd nb) g s))) (bands img)"
  by (simp add: Image_reduceRegion_def Reducer_mean_def)

lemma get_reduceRegion_mean:
  "Dictionary_get (Image_reduceRegion Reducer_mean g s img) n =
     (case map_of (bands img) n of
        None \<Rightarrow> Inl (MissingKey n)
      | Some b \<Rightarrow> Inr (meanOf (valuesUnder b g s)))"
  by (simp add: reduceRegion_mean Dictionary_get_def
      map_of_reduce [where h = "\<lambda>b. meanOf (valuesUnder b g s)"] split: option.splits)

lemma reduceRegion_three:
  "bands img = [(n, b)] \<Longrightarrow>
   Image_reduceRegion
     (Reducer_combine (Reducer_combine Reducer_mean Reducer_min '''' True) Reducer_max '''' True)
     g s img =
   [(n @ ''_mean'', meanOf (valuesUnder b g s)),
    (n @ ''_min'', minOf (valuesUnder b g s)),
    (n @ ''_max'', maxOf (valuesUnder b g s))]"
  by (simp add: Image_reduceRegion_def Reducer_combine_def Reducer_mean_def Reducer_min_def
      Reducer_max_def)

lemma select_hasBand:
  "Image_select n img = Inr y \<longleftrightarrow> (\<exists>b. map_of (bands img) n = Some b \<and> y = img\<lparr>bands := [(n, b)]\<rparr>)"
  by (auto simp: Image_select_def split: option.splits)

lemma celsius_of_select:
  assumes "map_of (bands src) ''LST_Day_1km'' = Some b"
  shows "Image_copyProperties (src\<lparr>bands := [(''LST_Day_1km'', b)]\<rparr>)
           (Image_subtract 273.15 (Image_multiply 0.02 (src\<lparr>bands := [(''LST_Day_1km'', b)]\<rparr>)))
         = celsiusImage src"
  using assms
  by (simp add: Image_copyProperties_def Image_subtract_def Image_multiply_def Image_arith_def
      celsiusImage_def celsius_def [abs_def] fun_eq_iff option.map_comp comp_def)

lemma temperature_Inr:
  "temperature ee = Inr ic \<longleftrightarrow>
     list_all (hasBand ''LST_Day_1km'') (MOD11A1 ee) \<and> ic = map celsiusImage (MOD11A1 ee)"
proof -
  have sel: "list_all2 (\<lambda>x y. Image_select ''LST_Day_1km'' x = Inr y) raw selected \<Longrightarrow>
      list_all (hasBand ''LST_Day_1km'') raw \<and>
      map (\<lambda>img. Image_copyProperties img (Image_subtract 273.15 (Image_multiply 0.02 img)))
        selected = map celsiusImage raw" for raw selected
    by (induction rule: list_all2_induct)
       (auto simp: select_hasBand hasBand_def celsius_of_select [simplified])
  have tot: "list_all (hasBand ''LST_Day_1km'') raw \<Longrightarrow>
      \<exists>selected. list_all2 (\<lambda>x y. Image_select ''LST_Day_1km'' x = Inr y) raw selected" for raw
    by (induction raw) (auto simp: hasBand_def select_hasBand list_all2_Cons1)
  show ?thesis
  proof
    assume "temperature ee = Inr ic"
    then obtain selected where
      "list_all2 (\<lambda>x y. Image_select ''LST_Day_1km'' x = Inr y) (MOD11A1 ee) selected"
      and "ic = map (\<lambda>img. Image_copyProperties img
                (Image_subtract 273.15 (Image_multiply 0.02 img))) selected"
      unfolding temperature_def bindE_eq_Inr mapE_eq_Inr by auto
    with sel [of "MOD11A1 ee" selected]
    show "list_all (hasBand ''LST_Day_1km'') (MOD11A1 ee) \<and> ic = map celsiusImage (MOD11A1 ee)"
      by simp
  next
    assume a: "list_all (hasBand ''LST_Day_1km'') (MOD11A1 ee) \<and> ic = map celsiusImage (MOD11A1 ee)"
    with tot obtain selected where
      s: "list_all2 (\<lambda>x y. Image_select ''LST_Day_1km'' x = Inr y) (MOD11A1 ee) selected"
      by blast
    with sel [OF s] a show "temperature ee = Inr ic"
      unfolding temperature_def bindE_eq_Inr mapE_eq_Inr by auto
  qed
qed

lemma time_start_celsiusImage [simp]: "time_start (celsiusImage src) = time_start src"
  by (simp add: celsiusImage_def)

lemma first_map: "first (map f xs) = map_option f (first xs)"
  by (cases xs) (simp_all add: first_def)

lemma filterDate_celsius:
  "filterDate s e (map celsiusImage raw) = map celsiusImage (filterDate s e raw)"
  by (simp add: filterDate_def filter_map comp_def inDateRange_def [abs_def])

lemma temperatureImage_Inr:
  "temperatureImage ee T = Inr tImg \<longleftrightarrow>
     list_all (hasBand ''LST_Day_1km'') (MOD11A1 ee) \<and>
     tImg = map_option celsiusImage (first (filterDate (start T) (end' T) (MOD11A1 ee)))"
  unfolding temperatureImage_def bindE_eq_Inr temperature_Inr
  by (auto simp: filterDate_celsius first_map)

lemma valuesUnder_map:
  "valuesUnder (\<lambda>p. map_option f (b p)) g s = map f (valuesUnder b g s)"
  by (simp add: valuesUnder_def List.map_filter_def comp_def option.map_sel)

lemma tempStats_None:
  "tempStats geom None =
     Inr [(''LST_Day_1km_mean'', Null), (''LST_Day_1km_min'', Null), (''LST_Day_1km_max'', Null)]"
  by (simp add: tempStats_def Algorithms_If_def)

lemma tempStats_celsius:
  assumes "map_of (bands src) ''LST_Day_1km'' = Some b"
  shows "tempStats geom (Some (celsiusImage src)) =
     Inr [(''LST_Day_1km_mean'', meanOf (map celsius (valuesUnder b geom scale))),
          (''LST_Day_1km_min'', minOf (map celsius (valuesUnder b geom scale))),
          (''LST_Day_1km_max'', maxOf (map celsius (valuesUnder b geom scale)))]"
proof -
  have "bands (celsiusImage src) = [(''LST_Day_1km'', \<lambda>p. map_option celsius (b p))]"
    using assms by (simp add: celsiusImage_def)
  then show ?thesis
    unfolding tempStats_def Algorithms_If_def
    by (simp add: reduceRegion_three valuesUnder_map)
qed

lemma ndviMean_None: "ndviMean geom None = Inr Null"
  by (simp add: ndviMean_def Algorithms_If_def)

lemma popMean_None: "popMean geom None = Inr Null"
  by (simp add: popMean_def Algorithms_If_def)

lemma era5Stats_None:
  "era5Stats geom None = Inr [(''wind'', Null), (''evap'', Null), (''precip'', Null)]"
  by (simp add: era5Stats_def Algorithms_If_def)

lemma ndviMean_Some:
  "ndviMean geom (Some img) = Inr v \<longleftrightarrow>
     (\<exists>b. map_of (bands img) ''NDVI'' = Some b \<and> v = meanOf (valuesUnder b geom scale))"
  by (auto simp: ndviMean_def Algorithms_If_def get_reduceRegion_mean split: option.splits)

lemma popMean_Some:
  "popMean geom (Some img) = Inr v \<longleftrightarrow>
     (\<exists>b. map_of (bands img) ''population_density'' = Some b \<and>
          v = meanOf (valuesUnder b geom scale))"
  by (auto simp: popMean_def Algorithms_If_def get_reduceRegion_mean split: option.splits)

lemma windExpression_image:
  "Image_expression windExpression
     [(''u'', img\<lparr>bands := [(un, ub)]\<rparr>), (''v'', img\<lparr>bands := [(vn, vb)]\<rparr>)] =
   Inr \<lparr>time_start = None, time_end = None, bands = [(un, magnitude ub vb)]\<rparr>"
  by (simp add: Image_expression_def windExpression_def firstBand_def first_def magnitude_def
      fun_eq_iff split: option.splits)

lemma era5Stats_Some:
  "era5Stats geom (Some img) = Inr d \<longleftrightarrow>
     (\<exists>ub vb eb pb.
        map_of (bands img) ''u_component_of_wind_10m'' = Some ub \<and>
        map_of (bands img) ''v_component_of_wind_10m'' = Some vb \<and>
        map_of (bands img) ''total_evaporation_hourly'' = Some eb \<and>
        map_of (bands img) ''total_precipitation_hourly'' = Some pb \<and>
        d = [(''wind'', meanOf (valuesUnder (magnitude ub vb) geom scale)),
             (''evap'', meanOf (valuesUnder eb geom scale)),
             (''precip'', meanOf (valuesUnder pb geom scale))])"
  unfolding era5Stats_def Algorithms_If_def option.case bindE_eq_Inr select_hasBand
  by (auto simp: windExpression_image get_reduceRegion_mean)

lemma dem_Inr:
  "dem ee = Inr d \<longleftrightarrow>
     (\<exists>b. map_of (bands (NASADEM_HGT ee)) ''elevation'' = Some b \<and>
          d = (NASADEM_HGT ee)\<lparr>bands := [(''elevation'', b)]\<rparr>)"
  by (simp add: dem_def select_hasBand)

lemma elevationMean_Inr:
  "elevationMean ee geom = Inr v \<longleftrightarrow>
     (\<exists>b. map_of (bands (NASADEM_HGT ee)) ''elevation'' = Some b \<and>
          v = meanOf (valuesUnder b geom scale))"
  unfolding elevationMean_def bindE_eq_Inr dem_Inr
  by (auto simp: get_reduceRegion_mean)

lemma slopeMean_Inr:
  "slopeMean ee geom = Inr v \<longleftrightarrow>
     (\<exists>b. map_of (bands (NASADEM_HGT ee)) ''elevation'' = Some b \<and>
          v = meanOf (valuesUnder (slopeAlgorithm ee b) geom scale))"
  unfolding slopeMean_def slope_def bindE_eq_Inr dem_Inr
  by (auto simp: get_reduceRegion_mean Terrain_slope_def firstBand_def first_def)

lemma Feature_geometry_Inr:
  "Feature_geometry (first xs) = Inr g \<longleftrightarrow> (\<exists>m ms. xs = m # ms \<and> g = geometry m)"
  by (cases xs) (auto simp: Feature_geometry_def first_def)

lemma isOK_iff: "isOK r \<longleftrightarrow> (\<exists>v. r = Inr v)"
  by (cases r) (simp_all add: isOK_def)

lemma first_filter_in_set: "first (filter P xs) = Some x \<Longrightarrow> x \<in> set xs"
  using first_filter_Some by fastforce

lemma extractData_succeeds:
  assumes ev: "validEvent ee feat fc" and cat: "validCatalogues ee"
  shows "\<exists>r. extractData ee feat fc st = Inr r"
proof -
  from ev obtain m ms T where
    m: "idMatches ee feat fc = Inr (m # ms)"
    and T: "Date (parseDate ee) (Feature_get feat ''CONT_DATE'') = Inr T"
    by (auto simp: validEvent_def isOK_iff neq_Nil_conv split: sum.splits)
  from cat have lst: "list_all (hasBand ''LST_Day_1km'') (MOD11A1 ee)"
    by (simp add: validCatalogues_def)
  then have ti: "temperatureImage ee T =
      Inr (map_option celsiusImage (first (filterDate (start T) (end' T) (MOD11A1 ee))))"
    by (simp add: temperatureImage_Inr)
  have ts: "\<exists>a b c. tempStats (geometry m)
        (map_option celsiusImage (first (filterDate (start T) (end' T) (MOD11A1 ee)))) =
      Inr [(''LST_Day_1km_mean'', a), (''LST_Day_1km_min'', b), (''LST_Day_1km_max'', c)]"
  proof (cases "first (filterDate (start T) (end' T) (MOD11A1 ee))")
    case None
    then show ?thesis by (simp add: tempStats_None)
  next
    case (Some src)
    then have "src \<in> set (MOD11A1 ee)"
      by (auto simp: filterDate_def dest: first_filter_in_set)
    with lst obtain b where "map_of (bands src) ''LST_Day_1km'' = Some b"
      by (auto simp: list_all_iff hasBand_def)
    with Some show ?thesis by (simp add: tempStats_celsius)
  qed
  have nd: "\<exists>v. ndviMean (geometry m) (ndviImage ee T) = Inr v"
  proof (cases "ndviImage ee T")
    case None
    then show ?thesis by (simp add: ndviMean_None)
  next
    case (Some img)
    then have "img \<in> set (MOD09GA_006_NDVI ee)"
      by (auto simp: ndviImage_def ndvi_def filterDate_def dest: first_filter_in_set)
    with cat obtain b where "map_of (bands img) ''NDVI'' = Some b"
      by (auto simp: validCatalogues_def list_all_iff hasBand_def)
    with Some show ?thesis by (simp add: ndviMean_Some)
  qed
  have pp: "\<exists>v. popMean (geometry m) (populationImage ee T) = Inr v"
  proof (cases "populationImage ee T")
    case None
    then show ?thesis by (simp add: popMean_None)
  next
    case (Some img)
    then have "img \<in> set (GPW_Population_Density ee)"
      by (auto simp: populationImage_def population_def filterDate_def dest: first_filter_in_set)
    with cat obtain b where "map_of (bands img) ''population_density'' = Some b"
      by (auto simp: validCatalogues_def list_all_iff hasBand_def)
    with Some show ?thesis by (simp add: popMean_Some)
  qed
  have er: "\<exists>a b c. era5Stats (geometry m) (ERA5Image ee T) =
      Inr [(''wind'', a), (''evap'', b), (''precip'', c)]"
  proof (cases "ERA5Image ee T")
    case None
    then show ?thesis by (simp add: era5Stats_None)
  next
    case (Some img)
    then have "img \<in> set (ERA5_LAND_HOURLY ee)"
      by (auto simp: ERA5Image_def ERA5_def filterDate_def dest: first_filter_in_set)
    with cat obtain ub vb eb pb where
      "map_of (bands img) ''u_component_of_wind_10m'' = Some ub"
      "map_of (bands img) ''v_component_of_wind_10m'' = Some vb"
      "map_of (bands img) ''total_evaporation_hourly'' = Some eb"
      "map_of (bands img) ''total_precipitation_hourly'' = Some pb"
      by (auto simp: validCatalogues_def list_all_iff hasBand_def)
    with Some show ?thesis by (simp add: era5Stats_Some)
  qed
  from cat obtain eb where eb: "map_of (bands (NASADEM_HGT ee)) ''elevation'' = Some eb"
    by (auto simp: validCatalogues_def hasBand_def)
  then have sl: "\<exists>v. slopeMean ee (geometry m) = Inr v"
    and el: "\<exists>v. elevationMean ee (geometry m) = Inr v"
    by (simp_all add: slopeMean_Inr elevationMean_Inr)
  from ts obtain a b c where ts': "tempStats (geometry m)
        (map_option celsiusImage (first (filterDate (start T) (end' T) (MOD11A1 ee)))) =
      Inr [(''LST_Day_1km_mean'', a), (''LST_Day_1km_min'', b), (''LST_Day_1km_max'', c)]"
    by blast
  from er obtain w e p where er': "era5Stats (geometry m) (ERA5Image ee T) =
      Inr [(''wind'', w), (''evap'', e), (''precip'', p)]"
    by blast
  from nd obtain nv where nd': "ndviMean (geometry m) (ndviImage ee T) = Inr nv" by blast
  from pp obtain pv where pp': "popMean (geometry m) (populationImage ee T) = Inr pv" by blast
  from sl obtain sv where sl': "slopeMean ee (geometry m) = Inr sv" by blast
  from el obtain ev where el': "elevationMean ee (geometry m) = Inr ev" by blast
  show ?thesis
    unfolding extractData_def Let_def
    by (simp add: m Feature_geometry_Inr [THEN iffD2] T ti ts' nd' pp' er' sl' el'
        Dictionary_get_def)
qed

lemma bind_first_geometry:
  "bindE lookup (\<lambda>matched. bindE (Feature_geometry (first matched)) k) = Inr y \<longleftrightarrow>
     (\<exists>m ms. lookup = Inr (m # ms) \<and> k (geometry m) = Inr y)"
  by (auto simp: bindE_eq_Inr Feature_geometry_Inr)

lemma extractData_Inr:
  "extractData ee feat fc st = Inr r \<longleftrightarrow>
     (\<exists>m ms fireDate tImg tempStat ndviM popM era5Stat slopeM elevationM tMean tMin tMax
        wind evap precip.
        idMatches ee feat fc = Inr (m # ms) \<and>
        Date (parseDate ee) (Feature_get feat ''CONT_DATE'') = Inr fireDate \<and>
        temperatureImage ee fireDate = Inr tImg \<and>
        tempStats (geometry m) tImg = Inr tempStat \<and>
        ndviMean (geometry m) (ndviImage ee fireDate) = Inr ndviM \<and>
        popMean (geometry m) (populationImage ee fireDate) = Inr popM \<and>
        era5Stats (geometry m) (ERA5Image ee fireDate) = Inr era5Stat \<and>
        slopeMean ee (geometry m) = Inr slopeM \<and>
        elevationMean ee (geometry m) = Inr elevationM \<and>
        Dictionary_get tempStat ''LST_Day_1km_mean'' = Inr tMean \<and>
        Dictionary_get tempStat ''LST_Day_1km_min'' = Inr tMin \<and>
        Dictionary_get tempStat ''LST_Day_1km_max'' = Inr tMax \<and>
        Dictionary_get era5Stat ''wind'' = Inr wind \<and>
        Dictionary_get era5Stat ''evap'' = Inr evap \<and>
        Dictionary_get era5Stat ''precip'' = Inr precip \<and>
        r = Feature None
          [(''ID'', Feature_get feat ''ID''),
           (''creationDate'', DateV (start fireDate)),
           (''Lat'', Feature_get feat ''Lat''), (''Long'', Feature_get feat ''Long''),
           (''temperatureMean'', tMean),
           (''Min_Temperature'', tMin),
           (''Max_Temperature'', tMax),
           (''ndviMean'', ndviM),
           (''slope'', slopeM),
           (''elevation'', elevationM),
           (''Dis_Road'', Feature_get feat ''D_Road''),
           (''Dis_Water'', Feature_get feat ''D_Water''),
           (''population'', popM),
           (''windspeed'', wind),
           (''evaporation'', evap),
           (''precipitation'', precip),
           (''fire'', st)])"
  unfolding extractData_def Let_def bind_first_geometry bindE_eq_Inr
  by blast

lemma inDateRange_inWindow: "inDateRange s e = inWindow s e"
  by (auto simp: inDateRange_def inWindow_def fun_eq_iff split: option.splits)

lemma start_day: "start T = T - 86400000"
  by (simp add: start_def Date_advance_def msPerDay_def)

lemma end_day: "end' T = T + 86400000"
  by (simp add: end'_def Date_advance_def msPerDay_def)

lemma calendarRange_14: "Filter_calendarRange 14 14 Hour = acquiredAtHour 14"
  by (auto simp: Filter_calendarRange_def acquiredAtHour_def calendarField_def msPerHour_def
      fun_eq_iff split: option.splits)

lemma ERA5Image_alt:
  "ERA5Image ee T =
     first (filter (\<lambda>img. acquiredAtHour 14 img \<and> inWindow (start T) (end' T) img)
       (ERA5_LAND_HOURLY ee))"
  by (simp add: ERA5Image_def ERA5_def filterDate_def inDateRange_inWindow calendarRange_14
      conj_commute)

lemma extractData_no_match:
  "idMatches ee feat fc = Inr [] \<Longrightarrow>
     extractData ee feat fc st = Inl (NullArgument ''feature'')"
  by (simp add: extractData_def Let_def first_def Feature_geometry_def)

lemma meanOf_Nil [simp]: "meanOf [] = Null" by (simp add: meanOf_def)

lemma minOf_Nil [simp]: "minOf [] = Null" by (simp add: minOf_def)

lemma maxOf_Nil [simp]: "maxOf [] = Null" by (simp add: maxOf_def)

lemma noValidPixel_band:
  "noValidPixel geom img \<Longrightarrow> map_of (bands img) n = Some b \<Longrightarrow> valuesUnder b geom scale = []"
  by (fastforce simp: noValidPixel_def list_all_iff dest: map_of_SomeD)

lemma valuesUnder_empty: "valuesUnder b g s = [] \<longleftrightarrow> (\<forall>p \<in> set (g s). b p = None)"
  by (auto simp: valuesUnder_def List.map_filter_def filter_empty_conv)

lemma valuesUnder_magnitude_empty:
  "valuesUnder ub g s = [] \<Longrightarrow> valuesUnder (magnitude ub vb) g s = []"
  by (simp add: valuesUnder_empty magnitude_def)

lemma extractData_InrE:
  assumes "extractData ee feat fc st = Inr r"
  obtains m ms T tImg tempStat ndviM popM era5Stat slopeM elevationM tMean tMin tMax
      wind evap precip where
    "idMatches ee feat fc = Inr (m # ms)"
    and "Date (parseDate ee) (Feature_get feat ''CONT_DATE'') = Inr T"
    and "temperatureImage ee T = Inr tImg"
    and "tempStats (geometry m) tImg = Inr tempStat"
    and "ndviMean (geometry m) (ndviImage ee T) = Inr ndviM"
    and "popMean (geometry m) (populationImage ee T) = Inr popM"
    and "era5Stats (geometry m) (ERA5Image ee T) = Inr era5Stat"
    and "slopeMean ee (geometry m) = Inr slopeM"
    and "elevationMean ee (geometry m) = Inr elevationM"
    and "Dictionary_get tempStat ''LST_Day_1km_mean'' = Inr tMean"
    and "Dictionary_get tempStat ''LST_Day_1km_min'' = Inr tMin"
    and "Dictionary_get tempStat ''LST_Day_1km_max'' = Inr tMax"
    and "Dictionary_get era5Stat ''wind'' = Inr wind"
    and "Dictionary_get era5Stat ''evap'' = Inr evap"
    and "Dictionary_get era5Stat ''precip'' = Inr precip"
    and "properties r =
          [(''ID'', Feature_get feat ''ID''),
           (''creationDate'', DateV (start T)),
           (''Lat'', Feature_get feat ''Lat''), (''Long'', Feature_get feat ''Long''),
           (''temperatureMean'', tMean),
           (''Min_Temperature'', tMin),
           (''Max_Temperature'', tMax),
           (''ndviMean'', ndviM),
           (''slope'', slopeM),
           (''elevation'', elevationM),
           (''Dis_Road'', Feature_get feat ''D_Road''),
           (''Dis_Water'', Feature_get feat ''D_Water''),
           (''population'', popM),
           (''windspeed'', wind),
           (''evaporation'', evap),
           (''precipitation'', precip),
           (''fire'', st)]"
proof -
  from assms obtain m ms T tImg tempStat ndviM popM era5Stat slopeM elevationM tMean tMin tMax
      wind evap precip where
    h: "idMatches ee feat fc = Inr (m # ms)"
    "Date (parseDate ee) (Feature_get feat ''CONT_DATE'') = Inr T"
    "temperatureImage ee T = Inr tImg"
    "tempStats (geometry m) tImg = Inr tempStat"
    "ndviMean (geometry m) (ndviImage ee T) = Inr ndviM"
    "popMean (geometry m) (populationImage ee T) = Inr popM"
    "era5Stats (geometry m) (ERA5Image ee T) = Inr era5Stat"
    "slopeMean ee (geometry m) = Inr slopeM"
    "elevationMean ee (geometry m) = Inr elevationM"
    "Dictionary_get tempStat ''LST_Day_1km_mean'' = Inr tMean"
    "Dictionary_get tempStat ''LST_Day_1km_min'' = Inr tMin"
    "Dictionary_get tempStat ''LST_Day_1km_max'' = Inr tMax"
    "Dictionary_get era5Stat ''wind'' = Inr wind"
    "Dictionary_get era5Stat ''evap'' = Inr evap"
    "Dictionary_get era5Stat ''precip'' = Inr precip"
    "r = Feature None
          [(''ID'', Feature_get feat ''ID''),
           (''creationDate'', DateV (start T)),
           (''Lat'', Feature_get feat ''Lat''), (''Long'', Feature_get feat ''Long''),
           (''temperatureMean'', tMean),
           (''Min_Temperature'', tMin),
           (''Max_Temperature'', tMax),
           (''ndviMean'', ndviM),
           (''slope'', slopeM),
           (''elevation'', elevationM),
           (''Dis_Road'', Feature_get feat ''D_Road''),
           (''Dis_Water'', Feature_get feat ''D_Water''),
           (''population'', popM),
           (''windspeed'', wind),
           (''evaporation'', evap),
           (''precipitation'', precip),
           (''fire'', st)]"
    unfolding extractData_Inr by blast
  from h(16) have "properties r =
          [(''ID'', Feature_get feat ''ID''),
           (''creationDate'', DateV (start T)),
           (''Lat'', Feature_get feat ''Lat''), (''Long'', Feature_get feat ''Long''),
           (''temperatureMean'', tMean),
           (''Min_Temperature'', tMin),
           (''Max_Temperature'', tMax),
           (''ndviMean'', ndviM),
           (''slope'', slopeM),
           (''elevation'', elevationM),
           (''Dis_Road'', Feature_get feat ''D_Road''),
           (''Dis_Water'', Feature_get feat ''D_Water''),
           (''population'', popM),
           (''windspeed'', wind),
           (''evaporation'', evap),
           (''precipitation'', precip),
           (''fire'', st)]"
    by (simp add: Feature_def)
  with h that show thesis by blast
qed

lemma tempStats_single:
  "bands img = [(''LST_Day_1km'', b)] \<Longrightarrow>
   tempStats geom (Some img) =
     Inr [(''LST_Day_1km_mean'', meanOf (valuesUnder b geom scale)),
          (''LST_Day_1km_min'', minOf (valuesUnder b geom scale)),
          (''LST_Day_1km_max'', maxOf (valuesUnder b geom scale))]"
  unfolding tempStats_def Algorithms_If_def
  by (simp add: reduceRegion_three)

lemma slope_Inr:
  "slope ee = Inr img \<longleftrightarrow>
     (\<exists>b. map_of (bands (NASADEM_HGT ee)) ''elevation'' = Some b \<and>
          img = \<lparr>time_start = None, time_end = None,
                 bands = [(''slope'', slopeAlgorithm ee b)]\<rparr>)"
  unfolding slope_def bindE_eq_Inr dem_Inr
  by (auto simp: Terrain_slope_def firstBand_def first_def)

lemma temperatureImage_Some:
  assumes "temperatureImage ee T = Inr (Some img)"
  obtains src b where
    "first (filterDate (start T) (end' T) (MOD11A1 ee)) = Some src"
    and "map_of (bands src) ''LST_Day_1km'' = Some b"
    and "img = celsiusImage src"
    and "bands img = [(''LST_Day_1km'', \<lambda>p. map_option celsius (b p))]"
proof -
  from assms obtain src where
    lst: "list_all (hasBand ''LST_Day_1km'') (MOD11A1 ee)"
    and src: "first (filterDate (start T) (end' T) (MOD11A1 ee)) = Some src"
    and img: "img = celsiusImage src"
    unfolding temperatureImage_Inr by (cases "first (filterDate (start T) (end' T) (MOD11A1 ee))") auto
  from src have "src \<in> set (MOD11A1 ee)"
    by (auto simp: filterDate_def dest: first_filter_in_set)
  with lst obtain b where b: "map_of (bands src) ''LST_Day_1km'' = Some b"
    by (auto simp: list_all_iff hasBand_def)
  with img have "bands img = [(''LST_Day_1km'', \<lambda>p. map_option celsius (b p))]"
    by (simp add: celsiusImage_def)
  with src b img that show thesis by blast
qed

lemma batch_records:
  assumes "FeatureCollection_map (\<lambda>feat. extractData ee feat fc st) fc' = Inr rs"
  shows "length rs = length fc' \<and>
         (\<forall>x \<in> set rs. \<exists>feat \<in> set fc'. extractData ee feat fc st = Inr x)"
proof -
  from assms have "list_all2 (\<lambda>feat x. extractData ee feat fc st = Inr x) fc' rs"
    by (simp add: FeatureCollection_map_def mapE_eq_Inr)
  then show ?thesis
    by (induction rule: list_all2_induct) auto
qed

lemma batch_fails:
  assumes "feat \<in> set fc'" and "extractData ee feat fc st = Inl e"
  shows "\<exists>e'. FeatureCollection_map (\<lambda>feat. extractData ee feat fc st) fc' = Inl e'"
  unfolding FeatureCollection_map_def
  using assms by (rule mapE_fails)

lemma batch_succeeds:
  assumes "\<And>feat. feat \<in> set fc' \<Longrightarrow> validEvent ee feat fc" and "validCatalogues ee"
  shows "\<exists>rs. FeatureCollection_map (\<lambda>feat. extractData ee feat fc st) fc' = Inr rs"
  using assms(1)
proof (induction fc')
  case Nil
  show ?case by (simp add: FeatureCollection_map_def)
next
  case (Cons a fc')
  then obtain rs where
    "FeatureCollection_map (\<lambda>feat. extractData ee feat fc st) fc' = Inr rs" by auto
  moreover from Cons.prems assms(2) obtain r where "extractData ee a fc st = Inr r"
    using extractData_succeeds by (metis list.set_intros(1))
  ultimately show ?case by (simp add: FeatureCollection_map_def)
qed

lemma export_columns:
  assumes "Export_table_toDrive c dir desc fmt selectors = Inr t"
  shows "header t = selectors \<and> (\<forall>row \<in> set (rows t). length row = 17)"
proof -
  from assms obtain fc where
    "t = \<lparr>folder = dir, description = desc, fileFormat = fmt, header = selectors,
          rows = map (\<lambda>f. map (Feature_get f) selectors) fc\<rparr>"
    unfolding Export_table_toDrive_def bindE_eq_Inr by auto
  moreover have "length selectors = 17" by (simp add: selectors_def)
  ultimately show ?thesis by auto
qed

lemma valuesUnder_uniform:
  "\<forall>p \<in> set (g s). b p = Some c \<Longrightarrow> valuesUnder b g s = replicate (length (g s)) c"
  by (simp add: valuesUnder_def List.map_filter_def map_replicate_const [symmetric]
      cong: map_cong)

lemma funpow_min_const: "(min (c::real) ^^ n) c = c"
  by (induction n) simp_all

lemma funpow_max_const: "(max (c::real) ^^ n) c = c"
  by (induction n) simp_all

lemma meanOf_replicate: "0 < n \<Longrightarrow> meanOf (replicate n c) = Num c"
  unfolding meanOf_def by (simp add: sum_list_replicate)

lemma minOf_replicate: "0 < n \<Longrightarrow> minOf (replicate n c) = Num c"
  by (cases n) (simp_all add: minOf_def funpow_min_const)

lemma maxOf_replicate: "0 < n \<Longrightarrow> maxOf (replicate n c) = Num c"
  by (cases n) (simp_all add: maxOf_def funpow_max_const)

lemma stats_replicate:
  "0 < n \<Longrightarrow> meanOf (replicate n c) = Num c \<and> minOf (replicate n c) = Num c \<and>
     maxOf (replicate n c) = Num c"
  by (simp add: meanOf_replicate minOf_replicate maxOf_replicate)

lemma temperature_uniform:
  assumes r: "extractData ee feat fc st = Inr r"
    and T: "Date (parseDate ee) (Feature_get feat ''CONT_DATE'') = Inr T"
    and m: "idMatches ee feat fc = Inr (m # ms)"
    and src: "first (filterDate (start T) (end' T) (MOD11A1 ee)) = Some src"
    and b: "map_of (bands src) ''LST_Day_1km'' = Some b"
    and ne: "geometry m scale \<noteq> []"
    and u: "\<forall>p \<in> set (geometry m scale). b p = Some raw"
  shows "map_of (properties r) ''temperatureMean'' = Some (Num (celsius raw)) \<and>
     map_of (properties r) ''Min_Temperature'' = Some (Num (celsius raw)) \<and>
     map_of (properties r) ''Max_Temperature'' = Some (Num (celsius raw))"
proof -
  from r obtain m' ms' T' tImg tempStat tMean tMin tMax where
    h: "idMatches ee feat fc = Inr (m' # ms')"
    "Date (parseDate ee) (Feature_get feat ''CONT_DATE'') = Inr T'"
    and ti: "temperatureImage ee T' = Inr tImg"
    and ts: "tempStats (geometry m') tImg = Inr tempStat"
    and g: "Dictionary_get tempStat ''LST_Day_1km_mean'' = Inr tMean"
    "Dictionary_get tempStat ''LST_Day_1km_min'' = Inr tMin"
    "Dictionary_get tempStat ''LST_Day_1km_max'' = Inr tMax"
    and rr: "map_of (properties r) ''temperatureMean'' = Some tMean"
    "map_of (properties r) ''Min_Temperature'' = Some tMin"
    "map_of (properties r) ''Max_Temperature'' = Some tMax"
    by (rule extractData_InrE) simp
  from h m T have eq: "m' = m" "T' = T" by simp_all
  from ti src have "tImg = Some (celsiusImage src)"
    by (simp add: eq temperatureImage_Inr)
  with ts b have "tempStat =
     [(''LST_Day_1km_mean'', meanOf (map celsius (valuesUnder b (geometry m) scale))),
      (''LST_Day_1km_min'', minOf (map celsius (valuesUnder b (geometry m) scale))),
      (''LST_Day_1km_max'', maxOf (map celsius (valuesUnder b (geometry m) scale)))]"
    by (simp add: eq tempStats_celsius)
  moreover have "map celsius (valuesUnder b (geometry m) scale) =
      replicate (length (geometry m scale)) (celsius raw)"
    by (simp add: valuesUnder_uniform [where g = "geometry m" and s = scale, OF u])
  moreover from ne have "0 < length (geometry m scale)" by simp
  ultimately show ?thesis
    using g rr stats_replicate [of "length (geometry m scale)" "celsius raw"]
    by (auto simp: Dictionary_get_def)
qed


lemma filter_eq_not_null:
  "v \<noteq> Null \<Longrightarrow>
     FeatureCollection_filter_eq onNull name v fc =
       Inr (filter (\<lambda>f. map_of (properties f) name = Some v) fc)"
  by (simp add: FeatureCollection_filter_eq_def)

lemma idMatches_finds_itself:
  assumes "feat \<in> set fc" and "Feature_get feat ''ID'' \<noteq> Null"
  shows "\<exists>m ms. idMatches ee feat fc = Inr (m # ms)"
proof -
  from assms(2) have "map_of (properties feat) ''ID'' = Some (Feature_get feat ''ID'')"
    by (auto simp: Feature_get_def split: option.splits)
  with assms(1) have
    "filter (\<lambda>f. map_of (properties f) ''ID'' = Some (Feature_get feat ''ID'')) fc \<noteq> []"
    by (auto simp: filter_empty_conv)
  with assms(2) show ?thesis
    by (simp add: filter_eq_not_null neq_Nil_conv)
qed

lemma extractData_lookup_fails:
  "idMatches ee feat fc = Inl e \<Longrightarrow> extractData ee feat fc st = Inl e"
  by (simp add: extractData_def Let_def)

lemma extractData_date_fails:
  "idMatches ee feat fc = Inr (m # ms) \<Longrightarrow>
   Date (parseDate ee) (Feature_get feat ''CONT_DATE'') = Inl e \<Longrightarrow>
   extractData ee feat fc st = Inl e"
  by (simp add: extractData_def Let_def Feature_geometry_def first_def)

lemma not_isOK_iff: "\<not> isOK r \<longleftrightarrow> (\<exists>e. r = Inl e)"
  by (cases r) (simp_all add: isOK_def)

lemma export_iff:
  "Export_table_toDrive c dir desc fmt sels = Inr t \<longleftrightarrow>
     (\<exists>rs. c = Inr rs \<and>
        t = \<lparr>folder = dir, description = desc, fileFormat = fmt, header = sels,
             rows = map (\<lambda>x. map (Feature_get x) sels) rs\<rparr>)"
  unfolding Export_table_toDrive_def bindE_eq_Inr by auto

lemma batch_iff:
  "FeatureCollection_map (\<lambda>feat. extractData ee feat fc st) fc' = Inr rs \<longleftrightarrow>
     list_all2 (\<lambda>feat x. extractData ee feat fc st = Inr x) fc' rs"
  by (simp add: FeatureCollection_map_def mapE_eq_Inr)

section \<open>The worked example, evaluated\<close>

lemmas example_defs = exampleEE_def eventA1_def eventNoID_def snapshot_def era5Bands_def
  eventDate_def

lemma Fire_example: "Fire exampleEE = [eventA1]"
  by (simp add: Fire_def FeatureCollection_select_def exampleEE_def eventA1_def)

lemma event_example: "validEvent ee eventA1 [eventA1]"
  by (simp add: validEvent_def Feature_get_def FeatureCollection_filter_eq_def isOK_def Date_def eventA1_def)

lemma date_example:
  "Date (parseDate ee) (Feature_get eventA1 ''CONT_DATE'') = Inr eventDate"
  by (simp add: Feature_get_def Date_def eventA1_def)

lemma catalogues_example: "validCatalogues exampleEE"
  by (simp add: validCatalogues_def hasBand_def example_defs)

lemmas variant_defs = gapEE_def maskedEE_def twoSnapshotsEE_def malformedEE_def duplicateEE_def
  maskedBands_def snapshot300K_def snapshot310K_def eventA1twin_def

lemma windows_example:
  "start eventDate = 1593734400000" "end' eventDate = 1593907200000"
  by (simp_all add: start_def end'_def Date_advance_def msPerDay_def eventDate_def)

lemma popStart_example: "popStart eventDate = 1499126400000"
  by code_simp

lemma popEnd_example: "popEnd eventDate = 1688428800000"
  by code_simp

lemma Fire_variants:
  "Fire gapEE = [eventA1]" "Fire maskedEE = [eventA1]" "Fire twoSnapshotsEE = [eventA1]"
  "NonFire exampleEE = [eventA1]"
  by (simp_all add: Fire_def NonFire_def FeatureCollection_select_def variant_defs exampleEE_def
      eventA1_def)

lemma Fire_malformed: "Fire malformedEE = [eventA1, eventNoID]"
  by (simp add: Fire_def FeatureCollection_select_def variant_defs exampleEE_def
      eventA1_def eventNoID_def)

lemma Fire_duplicate: "Fire duplicateEE = [eventA1, eventA1twin]"
  by (simp add: Fire_def FeatureCollection_select_def variant_defs exampleEE_def
      eventA1_def)

lemma catalogues_variants:
  "validCatalogues gapEE" "validCatalogues maskedEE" "validCatalogues twoSnapshotsEE"
  "validCatalogues malformedEE" "validCatalogues duplicateEE"
  by (simp_all add: validCatalogues_def hasBand_def example_defs variant_defs)

lemma temperature_valid:
  "validCatalogues ee \<Longrightarrow> temperature ee = Inr (map celsiusImage (MOD11A1 ee))"
  by (simp add: temperature_Inr validCatalogues_def)

lemma gap_windows:
  "filterDate (start eventDate) (end' eventDate) (map celsiusImage (MOD11A1 gapEE)) = []"
  "filterDate (start eventDate) (end' eventDate) (ndvi gapEE) = []"
  "filterDate (popStart eventDate) (popEnd eventDate) (population gapEE) = []"
  "filterDate (start eventDate) (end' eventDate) (ERA5 gapEE) = []"
  by (simp_all add: filterDate_celsius
      filterDate_def inDateRange_def ndvi_def population_def ERA5_def Filter_calendarRange_def
      calendarField_def msPerHour_def gapEE_def exampleEE_def snapshot_def
      windows_example [unfolded eventDate_def] popStart_example [unfolded eventDate_def]
      popEnd_example [unfolded eventDate_def] eventDate_def)

lemmas windows_numeral = windows_example [unfolded eventDate_def]
  popStart_example [unfolded eventDate_def] popEnd_example [unfolded eventDate_def]

lemma FireVariables_example:
  "\<exists>rs. FireVariables exampleEE = Inr rs" "\<exists>rs. NonFireVariables exampleEE = Inr rs"
  unfolding FireVariables_def NonFireVariables_def Fire_example Fire_variants
  by (rule batch_succeeds; simp add: event_example catalogues_example)+

lemma ERA5Image_example:
  "ERA5Image exampleEE eventDate = Some (snapshot (eventDate + 14 * 3600000) era5Bands)"
  by (simp add: ERA5Image_alt first_def acquiredAtHour_def inWindow_def windows_numeral
      exampleEE_def snapshot_def eventDate_def)

lemma match_example:
  "idMatches ee eventA1 [eventA1] = Inr [eventA1]"
  by (simp add: FeatureCollection_filter_eq_def Feature_get_def eventA1_def)

lemma sqrt_25: "sqrt 25 = 5"
  by (rule real_sqrt_unique) simp_all

lemma match_variants:
  "idMatches exampleEE eventA1 (Fire exampleEE) = Inr [eventA1]"
  "idMatches maskedEE eventA1 (Fire maskedEE) = Inr [eventA1]"
  "idMatches twoSnapshotsEE eventA1 (Fire twoSnapshotsEE) = Inr [eventA1]"
  unfolding Fire_example Fire_variants by (rule match_example)+

lemma event_malformed: "validEvent malformedEE eventA1 (Fire malformedEE)"
  by (simp add: validEvent_def Fire_malformed FeatureCollection_filter_eq_def Feature_get_def isOK_def Date_def
      eventA1_def)

lemma no_match_malformed:
  "idMatches malformedEE eventNoID (Fire malformedEE) = Inr []"
  by (simp add: Fire_malformed FeatureCollection_filter_eq_def Feature_get_def eventNoID_def
      malformedEE_def exampleEE_def)

lemma FireVariables_malformed: "FireVariables malformedEE = Inl (NullArgument ''feature'')"
proof -
  obtain r where "extractData malformedEE eventA1 (Fire malformedEE) (Num 1) = Inr r"
    using extractData_succeeds [OF event_malformed catalogues_variants(4)] by blast
  moreover have "extractData malformedEE eventNoID (Fire malformedEE) (Num 1) =
      Inl (NullArgument ''feature'')"
    using no_match_malformed by (rule extractData_no_match)
  ultimately show ?thesis
    unfolding FireVariables_def FeatureCollection_map_def
    by (simp add: Fire_malformed)
qed

lemma first_temperature_example:
  "first (filterDate (start eventDate) (end' eventDate) (MOD11A1 exampleEE)) = Some snapshot310K"
  "first (filterDate (start eventDate) (end' eventDate) (MOD11A1 twoSnapshotsEE)) =
     Some snapshot300K"
  by (simp_all add: first_def filterDate_def inDateRange_def windows_numeral exampleEE_def
      twoSnapshotsEE_def snapshot300K_def snapshot310K_def snapshot_def eventDate_def)

lemma bands_snapshots:
  "map_of (bands snapshot310K) ''LST_Day_1km'' = Some (uniform 15500)"
  "map_of (bands snapshot300K) ''LST_Day_1km'' = Some (uniform 15000)"
  by (simp_all add: snapshot300K_def snapshot310K_def snapshot_def)

lemma cells_example:
  "geometry eventA1 scale \<noteq> []" "\<forall>p \<in> set (geometry eventA1 scale). uniform c p = Some c"
  by (simp_all add: eventA1_def polygonP_def uniform_def)

lemma event_variants:
  "validEvent twoSnapshotsEE eventA1 (Fire twoSnapshotsEE)"
  "validEvent maskedEE eventA1 (Fire maskedEE)"
  unfolding Fire_variants by (rule event_example)+

lemma masked_images:
  "temperatureImage maskedEE eventDate =
     Inr (Some (celsiusImage (snapshot eventDate [(''LST_Day_1km'', masked)])))"
  "ndviImage maskedEE eventDate = Some (snapshot eventDate [(''NDVI'', masked)])"
  "populationImage maskedEE eventDate =
     Some (snapshot 1577836800000 [(''population_density'', masked)])"
  "ERA5Image maskedEE eventDate = Some (snapshot (eventDate + 14 * 3600000) maskedBands)"
  "dem maskedEE =
     Inr \<lparr>time_start = None, time_end = None, bands = [(''elevation'', masked)]\<rparr>"
  "slope maskedEE =
     Inr \<lparr>time_start = None, time_end = None,
          bands = [(''slope'', \<lambda>p. map_option (\<lambda>x. 0) (masked p))]\<rparr>"
proof -
  show "temperatureImage maskedEE eventDate =
     Inr (Some (celsiusImage (snapshot eventDate [(''LST_Day_1km'', masked)])))"
    unfolding temperatureImage_Inr
    by (simp add: hasBand_def first_def filterDate_def inDateRange_def windows_numeral
        maskedEE_def exampleEE_def snapshot_def eventDate_def)
  show "ndviImage maskedEE eventDate = Some (snapshot eventDate [(''NDVI'', masked)])"
    by (simp add: ndviImage_def ndvi_def first_def filterDate_def inDateRange_def windows_numeral
        maskedEE_def exampleEE_def snapshot_def eventDate_def)
  show "populationImage maskedEE eventDate =
     Some (snapshot 1577836800000 [(''population_density'', masked)])"
    by (simp add: populationImage_def population_def first_def filterDate_def inDateRange_def
        windows_numeral maskedEE_def exampleEE_def snapshot_def eventDate_def)
  show "ERA5Image maskedEE eventDate = Some (snapshot (eventDate + 14 * 3600000) maskedBands)"
    by (simp add: ERA5Image_alt first_def acquiredAtHour_def inWindow_def windows_numeral
        maskedEE_def exampleEE_def snapshot_def eventDate_def)
  show "dem maskedEE =
     Inr \<lparr>time_start = None, time_end = None, bands = [(''elevation'', masked)]\<rparr>"
    by (simp add: dem_Inr maskedEE_def exampleEE_def)
  show "slope maskedEE =
     Inr \<lparr>time_start = None, time_end = None,
          bands = [(''slope'', \<lambda>p. map_option (\<lambda>x. 0) (masked p))]\<rparr>"
    by (simp add: slope_Inr maskedEE_def exampleEE_def)
qed

lemma masked_no_valid_pixel:
  "noValidPixel g (celsiusImage (snapshot eventDate [(''LST_Day_1km'', masked)]))"
  "noValidPixel g (snapshot t [(n, masked)])"
  "noValidPixel g (snapshot t maskedBands)"
  "noValidPixel g \<lparr>time_start = None, time_end = None, bands = [(n, masked)]\<rparr>"
  "noValidPixel g \<lparr>time_start = None, time_end = None,
      bands = [(n, \<lambda>p. map_option f (masked p))]\<rparr>"
  by (simp_all add: noValidPixel_def valuesUnder_empty celsiusImage_def snapshot_def
      maskedBands_def masked_def)

lemma Fire_malformed_variants:
  "Fire malformedRefusedEE = [eventA1, eventNoID]"
  "Fire malformedMissingEE = [eventA1, eventNoID]"
  by (simp_all add: Fire_def FeatureCollection_select_def malformedRefusedEE_def
      malformedMissingEE_def malformedEE_def exampleEE_def eventA1_def eventNoID_def)

lemma Fire_badDate: "Fire badDateEE = [eventA1, eventBadDate]"
  by (simp add: Fire_def FeatureCollection_select_def badDateEE_def exampleEE_def
      eventA1_def eventBadDate_def)

lemma catalogues_malformed_variants:
  "validCatalogues malformedRefusedEE" "validCatalogues malformedMissingEE"
  "validCatalogues badDateEE"
  by (simp_all add: validCatalogues_def hasBand_def example_defs malformedRefusedEE_def
      malformedMissingEE_def malformedEE_def badDateEE_def)

lemma match_A1_first: "idMatches ee eventA1 (eventA1 # rest) = Inr (eventA1 # 
    filter (\<lambda>f. map_of (properties f) ''ID'' = Some (Str ''A1'')) rest)"
  by (simp add: FeatureCollection_filter_eq_def Feature_get_def eventA1_def)

lemma event_A1_first: "validEvent ee eventA1 (eventA1 # rest)"
  by (simp add: validEvent_def match_A1_first date_example isOK_def)

lemma match_noID:
  "idMatches malformedRefusedEE eventNoID (Fire malformedRefusedEE) =
     Inl (NullArgument ''rightValue'')"
  "idMatches malformedMissingEE eventNoID (Fire malformedMissingEE) = Inr [eventNoID]"
  unfolding Fire_malformed_variants
  by (simp_all add: FeatureCollection_filter_eq_def Feature_get_def
      malformedRefusedEE_def malformedMissingEE_def eventNoID_def eventA1_def)

lemma match_badDate:
  "idMatches badDateEE eventBadDate (Fire badDateEE) = Inr [eventBadDate]"
  unfolding Fire_badDate
  by (simp add: FeatureCollection_filter_eq_def Feature_get_def eventBadDate_def eventA1_def)

lemma date_badDate:
  "Date (parseDate badDateEE) (Feature_get eventBadDate ''CONT_DATE'') = Inl InvalidDate"
  by (simp add: Date_def Feature_get_def eventBadDate_def badDateEE_def exampleEE_def)

lemma batch_of_two:
  assumes "extractData ee a [a, b] st = Inr r" and "extractData ee b [a, b] st = Inl e"
  shows "FeatureCollection_map (\<lambda>feat. extractData ee feat [a, b] st) [a, b] = Inl e"
  using assms by (simp add: FeatureCollection_map_def)

lemma FireVariables_refused: "FireVariables malformedRefusedEE = Inl (NullArgument ''rightValue'')"
proof -
  obtain r where "extractData malformedRefusedEE eventA1 [eventA1, eventNoID] (Num 1) = Inr r"
    using extractData_succeeds [OF event_A1_first catalogues_malformed_variants(1)] by blast
  moreover have "extractData malformedRefusedEE eventNoID [eventA1, eventNoID] (Num 1) =
      Inl (NullArgument ''rightValue'')"
    using match_noID(1) unfolding Fire_malformed_variants by (rule extractData_lookup_fails)
  ultimately show ?thesis
    unfolding FireVariables_def Fire_malformed_variants by (rule batch_of_two)
qed

lemma FireVariables_badDate: "FireVariables badDateEE = Inl InvalidDate"
proof -
  obtain r where "extractData badDateEE eventA1 [eventA1, eventBadDate] (Num 1) = Inr r"
    using extractData_succeeds [OF event_A1_first catalogues_malformed_variants(3)] by blast
  moreover have "extractData badDateEE eventBadDate [eventA1, eventBadDate] (Num 1) =
      Inl InvalidDate"
    using match_badDate date_badDate unfolding Fire_badDate by (rule extractData_date_fails)
  ultimately show ?thesis
    unfolding FireVariables_def Fire_badDate by (rule batch_of_two)
qed

lemma FireVariables_missing: "recordCount (FireVariables malformedMissingEE) = Some 2"
proof -
  have "validEvent malformedMissingEE eventNoID [eventA1, eventNoID]"
    using match_noID(2) unfolding Fire_malformed_variants
    by (simp add: validEvent_def isOK_def Date_def Feature_get_def eventNoID_def)
  with event_A1_first [of malformedMissingEE "[eventNoID]"]
  have "\<exists>rs. FeatureCollection_map
      (\<lambda>feat. extractData malformedMissingEE feat [eventA1, eventNoID] (Num 1))
      [eventA1, eventNoID] = Inr rs"
    by (intro batch_succeeds catalogues_malformed_variants(2)) auto
  then obtain rs where rs: "FireVariables malformedMissingEE = Inr rs"
    unfolding FireVariables_def Fire_malformed_variants by blast
  then have "length rs = 2"
    unfolding FireVariables_def Fire_malformed_variants using batch_records by fastforce
  with rs show ?thesis by (simp add: recordCount_def)
qed

lemma geometry_example: "geometry eventA1 = polygonP" "geometry eventA1twin = polygonQ"
  by (simp_all add: eventA1_def eventA1twin_def)

lemma valuesUnder_polygons:
  "valuesUnder (uniform c) polygonP s = [c, c]"
  "valuesUnder relief polygonP s = [100, 100]"
  "valuesUnder relief polygonQ s = [900]"
  by (simp_all add: valuesUnder_def List.map_filter_def polygonP_def polygonQ_def uniform_def
      relief_def)

lemma meanOf_example: "meanOf [c, c] = Num c" "meanOf [c] = Num c"
  by (simp_all add: meanOf_def)

lemma example_images:
  "temperatureImage exampleEE eventDate = Inr (Some (celsiusImage snapshot310K))"
  "temperatureImage duplicateEE eventDate = Inr (Some (celsiusImage snapshot310K))"
  "ndviImage exampleEE eventDate = Some (snapshot eventDate [(''NDVI'', uniform 0.5)])"
  "ndviImage duplicateEE eventDate = Some (snapshot eventDate [(''NDVI'', uniform 0.5)])"
  "populationImage exampleEE eventDate =
     Some (snapshot 1577836800000 [(''population_density'', uniform 12)])"
  "populationImage duplicateEE eventDate =
     Some (snapshot 1577836800000 [(''population_density'', uniform 12)])"
  "ERA5Image duplicateEE eventDate = Some (snapshot (eventDate + 14 * 3600000) era5Bands)"
proof -
  show "temperatureImage exampleEE eventDate = Inr (Some (celsiusImage snapshot310K))"
    unfolding temperatureImage_Inr
    by (simp add: hasBand_def first_def filterDate_def inDateRange_def windows_numeral
        exampleEE_def snapshot310K_def snapshot_def eventDate_def)
  show "temperatureImage duplicateEE eventDate = Inr (Some (celsiusImage snapshot310K))"
    unfolding temperatureImage_Inr
    by (simp add: hasBand_def first_def filterDate_def inDateRange_def windows_numeral
        duplicateEE_def exampleEE_def snapshot310K_def snapshot_def eventDate_def)
  show "ndviImage exampleEE eventDate = Some (snapshot eventDate [(''NDVI'', uniform 0.5)])"
    "ndviImage duplicateEE eventDate = Some (snapshot eventDate [(''NDVI'', uniform 0.5)])"
    by (simp_all add: ndviImage_def ndvi_def first_def filterDate_def inDateRange_def
        windows_numeral duplicateEE_def exampleEE_def snapshot_def eventDate_def)
  show "populationImage exampleEE eventDate =
     Some (snapshot 1577836800000 [(''population_density'', uniform 12)])"
    "populationImage duplicateEE eventDate =
     Some (snapshot 1577836800000 [(''population_density'', uniform 12)])"
    by (simp_all add: populationImage_def population_def first_def filterDate_def
        inDateRange_def windows_numeral duplicateEE_def exampleEE_def snapshot_def eventDate_def)
  show "ERA5Image duplicateEE eventDate = Some (snapshot (eventDate + 14 * 3600000) era5Bands)"
    by (simp add: ERA5Image_alt first_def acquiredAtHour_def inWindow_def windows_numeral
        duplicateEE_def exampleEE_def snapshot_def eventDate_def)
qed

lemma example_statistics:
  "tempStats polygonP (Some (celsiusImage snapshot310K)) =
     Inr [(''LST_Day_1km_mean'', Num (celsius 15500)), (''LST_Day_1km_min'', Num (celsius 15500)),
          (''LST_Day_1km_max'', Num (celsius 15500))]"
  "ndviMean polygonP (Some (snapshot t [(''NDVI'', uniform c)])) = Inr (Num c)"
  "popMean polygonP (Some (snapshot t [(''population_density'', uniform c)])) = Inr (Num c)"
  "era5Stats polygonP (Some (snapshot t era5Bands)) =
     Inr [(''wind'', Num 5), (''evap'', Num (- 0.001)), (''precip'', Num 0.002)]"
proof -
  show "tempStats polygonP (Some (celsiusImage snapshot310K)) =
     Inr [(''LST_Day_1km_mean'', Num (celsius 15500)), (''LST_Day_1km_min'', Num (celsius 15500)),
          (''LST_Day_1km_max'', Num (celsius 15500))]"
    by (simp add: tempStats_celsius [OF bands_snapshots(1)] valuesUnder_polygons
        meanOf_def minOf_def maxOf_def)
  show "ndviMean polygonP (Some (snapshot t [(''NDVI'', uniform c)])) = Inr (Num c)"
    unfolding ndviMean_Some by (simp add: snapshot_def valuesUnder_polygons meanOf_example)
  show "popMean polygonP (Some (snapshot t [(''population_density'', uniform c)])) = Inr (Num c)"
    unfolding popMean_Some by (simp add: snapshot_def valuesUnder_polygons meanOf_example)
  have "valuesUnder (magnitude (uniform 3) (uniform 4)) polygonP scale = [5, 5]"
    by (simp add: valuesUnder_def List.map_filter_def polygonP_def uniform_def magnitude_def
        sqrt_25)
  then show "era5Stats polygonP (Some (snapshot t era5Bands)) =
     Inr [(''wind'', Num 5), (''evap'', Num (- 0.001)), (''precip'', Num 0.002)]"
    unfolding era5Stats_Some
    by (simp add: snapshot_def era5Bands_def valuesUnder_polygons meanOf_example)
qed

lemma terrain_example:
  "slopeMean exampleEE polygonP = Inr (Num 0)"
  "elevationMean exampleEE polygonP = Inr (Num 100)"
  "slopeMean duplicateEE polygonP = Inr (Num 0)"
  "elevationMean duplicateEE polygonP = Inr (Num 100)"
  "elevationMean duplicateEE polygonQ = Inr (Num 900)"
  unfolding slopeMean_Inr elevationMean_Inr
  by (simp_all add: exampleEE_def duplicateEE_def valuesUnder_map valuesUnder_polygons
      meanOf_example)

lemma record_example:
  "extractData exampleEE eventA1 [eventA1] st =
     Inr (Feature None
       [(''ID'', Str ''A1''), (''creationDate'', DateV 1593734400000),
        (''Lat'', Num 34.5), (''Long'', Num (- 118.25)),
        (''temperatureMean'', Num (celsius 15500)),
        (''Min_Temperature'', Num (celsius 15500)),
        (''Max_Temperature'', Num (celsius 15500)),
        (''ndviMean'', Num 0.5), (''slope'', Num 0), (''elevation'', Num 100),
        (''Dis_Road'', Num 120), (''Dis_Water'', Num 450), (''population'', Num 12),
        (''windspeed'', Num 5), (''evaporation'', Num (- 0.001)),
        (''precipitation'', Num 0.002), (''fire'', st)])"
proof -
  have "extractData exampleEE eventA1 [eventA1] st =
     Inr (Feature None
       [(''ID'', Feature_get eventA1 ''ID''), (''creationDate'', DateV (start eventDate)),
        (''Lat'', Feature_get eventA1 ''Lat''), (''Long'', Feature_get eventA1 ''Long''),
        (''temperatureMean'', Num (celsius 15500)),
        (''Min_Temperature'', Num (celsius 15500)),
        (''Max_Temperature'', Num (celsius 15500)),
        (''ndviMean'', Num 0.5), (''slope'', Num 0), (''elevation'', Num 100),
        (''Dis_Road'', Feature_get eventA1 ''D_Road''),
        (''Dis_Water'', Feature_get eventA1 ''D_Water''), (''population'', Num 12),
        (''windspeed'', Num 5), (''evaporation'', Num (- 0.001)),
        (''precipitation'', Num 0.002), (''fire'', st)])"
    by (simp add: extractData_def Let_def match_example first_def Feature_geometry_def
        geometry_example date_example example_images ERA5Image_example example_statistics
        terrain_example Dictionary_get_def)
  then show ?thesis
    by (simp add: Feature_get_def eventA1_def windows_example)
qed

lemma twin_example:
  "idMatches ee eventA1twin [eventA1, eventA1twin] = Inr [eventA1, eventA1twin]"
  "Date (parseDate ee) (Feature_get eventA1twin ''CONT_DATE'') = Inr eventDate"
  "idMatches ee eventB2 [eventA1] = Inr []"
  by (simp_all add: FeatureCollection_filter_eq_def Feature_get_def Date_def eventA1twin_def
      eventA1_def eventB2_def)

lemma gap_images:
  "temperatureImage gapEE eventDate = Inr None"
  "ndviImage gapEE eventDate = None"
  "populationImage gapEE eventDate = None"
  "ERA5Image gapEE eventDate = None"
  "slopeMean gapEE polygonP = Inr (Num 0)"
  "elevationMean gapEE polygonP = Inr (Num 100)"
proof -
  have "list_all (hasBand ''LST_Day_1km'') (MOD11A1 gapEE)"
    using catalogues_variants(1) by (simp add: validCatalogues_def)
  moreover have "filterDate (start eventDate) (end' eventDate) (MOD11A1 gapEE) = []"
    using gap_windows(1) by (simp add: filterDate_celsius)
  ultimately show "temperatureImage gapEE eventDate = Inr None"
    by (simp add: temperatureImage_Inr first_def)
  show "ndviImage gapEE eventDate = None" "populationImage gapEE eventDate = None"
    "ERA5Image gapEE eventDate = None"
    by (simp_all add: ndviImage_def populationImage_def ERA5Image_def gap_windows first_def)
  show "slopeMean gapEE polygonP = Inr (Num 0)" "elevationMean gapEE polygonP = Inr (Num 100)"
    unfolding slopeMean_Inr elevationMean_Inr
    by (simp_all add: gapEE_def exampleEE_def valuesUnder_map valuesUnder_polygons
        meanOf_example)
qed

lemma record_gap:
  "extractData gapEE eventA1 [eventA1] st =
     Inr (Feature None
       [(''ID'', Str ''A1''), (''creationDate'', DateV 1593734400000),
        (''Lat'', Num 34.5), (''Long'', Num (- 118.25)),
        (''temperatureMean'', Null), (''Min_Temperature'', Null), (''Max_Temperature'', Null),
        (''ndviMean'', Null), (''slope'', Num 0), (''elevation'', Num 100),
        (''Dis_Road'', Num 120), (''Dis_Water'', Num 450), (''population'', Null),
        (''windspeed'', Null), (''evaporation'', Null), (''precipitation'', Null),
        (''fire'', st)])"
proof -
  have "extractData gapEE eventA1 [eventA1] st =
     Inr (Feature None
       [(''ID'', Feature_get eventA1 ''ID''), (''creationDate'', DateV (start eventDate)),
        (''Lat'', Feature_get eventA1 ''Lat''), (''Long'', Feature_get eventA1 ''Long''),
        (''temperatureMean'', Null), (''Min_Temperature'', Null), (''Max_Temperature'', Null),
        (''ndviMean'', Null), (''slope'', Num 0), (''elevation'', Num 100),
        (''Dis_Road'', Feature_get eventA1 ''D_Road''),
        (''Dis_Water'', Feature_get eventA1 ''D_Water''), (''population'', Null),
        (''windspeed'', Null), (''evaporation'', Null), (''precipitation'', Null),
        (''fire'', st)])"
    by (simp add: extractData_def Let_def match_example first_def Feature_geometry_def
        geometry_example date_example gap_images tempStats_None ndviMean_None popMean_None
        era5Stats_None Dictionary_get_def)
  then show ?thesis
    by (simp add: Feature_get_def eventA1_def windows_example)
qed

lemma celsius_310: "approximately 36.85 (Some (Num (celsius 15500)))"
  by (simp add: approximately_def celsius_def)

text \<open>
  With two snapshots in the window the search returns the first: the record has the
  temperature of the snapshot of the day before.
\<close>

lemma first_of_two_snapshots:
  "filterDate (start eventDate) (end' eventDate) (MOD11A1 twoSnapshotsEE) =
     [snapshot300K, snapshot310K]"
  "approximately 26.85
     (fieldOf (extractData twoSnapshotsEE eventA1 (Fire twoSnapshotsEE) (Num 1))
        ''temperatureMean'')"
proof -
  show "filterDate (start eventDate) (end' eventDate) (MOD11A1 twoSnapshotsEE) =
     [snapshot300K, snapshot310K]"
    by (simp add: filterDate_def inDateRange_def windows_numeral exampleEE_def
        twoSnapshotsEE_def snapshot300K_def snapshot310K_def snapshot_def eventDate_def)
  obtain r where r: "extractData twoSnapshotsEE eventA1 (Fire twoSnapshotsEE) (Num 1) = Inr r"
    using extractData_succeeds [OF event_variants(1) catalogues_variants(3)] by blast
  from temperature_uniform [OF r date_example match_variants(3) first_temperature_example(2)
      bands_snapshots(2) cells_example]
  have "map_of (properties r) ''temperatureMean'' = Some (Num (celsius 15000))"
    by simp
  with r show "approximately 26.85
     (fieldOf (extractData twoSnapshotsEE eventA1 (Fire twoSnapshotsEE) (Num 1))
        ''temperatureMean'')"
    by (simp add: fieldOf_def approximately_def celsius_def)
qed

section \<open>The claims\<close>

subsection \<open>C1\<close>

text \<open>
  Claim C1. For a well-formed event (its ID is found in the backing collection, its
  date is readable) and catalogues that carry the bands the script reads, the extraction
  returns a record and raises no error; and for each of the four time-indexed sources
  (temperature, NDVI, population, ERA5), if the window of the source holds no snapshot,
  then every field of that source is present in the record and is null.
\<close>

theorem coverage_gap_yields_sentinel:
  assumes "validEvent ee feat fc" and "validCatalogues ee"
    and "Date (parseDate ee) (Feature_get feat ''CONT_DATE'') = Inr T"
    and "temperature ee = Inr ic"
  shows "isOK (extractData ee feat fc st) \<and>
     (filterDate (start T) (end' T) ic = [] \<longrightarrow>
        fieldOf (extractData ee feat fc st) ''temperatureMean'' = Some Null \<and>
        fieldOf (extractData ee feat fc st) ''Min_Temperature'' = Some Null \<and>
        fieldOf (extractData ee feat fc st) ''Max_Temperature'' = Some Null) \<and>
     (filterDate (start T) (end' T) (ndvi ee) = [] \<longrightarrow>
        fieldOf (extractData ee feat fc st) ''ndviMean'' = Some Null) \<and>
     (filterDate (popStart T) (popEnd T) (population ee) = [] \<longrightarrow>
        fieldOf (extractData ee feat fc st) ''population'' = Some Null) \<and>
     (filterDate (start T) (end' T) (ERA5 ee) = [] \<longrightarrow>
        fieldOf (extractData ee feat fc st) ''windspeed'' = Some Null \<and>
        fieldOf (extractData ee feat fc st) ''evaporation'' = Some Null \<and>
        fieldOf (extractData ee feat fc st) ''precipitation'' = Some Null)"
proof -
  from assms(1,2) obtain r where r: "extractData ee feat fc st = Inr r"
    using extractData_succeeds by blast
  from r assms(3) obtain geom tImg tempStat ndviM popM era5Stat slopeM elevationM
      tMean tMin tMax wind evap precip where
    ti: "temperatureImage ee T = Inr tImg"
    and ts: "tempStats geom tImg = Inr tempStat"
    and nd: "ndviMean geom (ndviImage ee T) = Inr ndviM"
    and pp: "popMean geom (populationImage ee T) = Inr popM"
    and er: "era5Stats geom (ERA5Image ee T) = Inr era5Stat"
    and g1: "Dictionary_get tempStat ''LST_Day_1km_mean'' = Inr tMean"
    and g2: "Dictionary_get tempStat ''LST_Day_1km_min'' = Inr tMin"
    and g3: "Dictionary_get tempStat ''LST_Day_1km_max'' = Inr tMax"
    and g4: "Dictionary_get era5Stat ''wind'' = Inr wind"
    and g5: "Dictionary_get era5Stat ''evap'' = Inr evap"
    and g6: "Dictionary_get era5Stat ''precip'' = Inr precip"
    and rr: "properties r =
          [(''ID'', Feature_get feat ''ID''),
           (''creationDate'', DateV (start T)),
           (''Lat'', Feature_get feat ''Lat''), (''Long'', Feature_get feat ''Long''),
           (''temperatureMean'', tMean),
           (''Min_Temperature'', tMin),
           (''Max_Temperature'', tMax),
           (''ndviMean'', ndviM),
           (''slope'', slopeM),
           (''elevation'', elevationM),
           (''Dis_Road'', Feature_get feat ''D_Road''),
           (''Dis_Water'', Feature_get feat ''D_Water''),
           (''population'', popM),
           (''windspeed'', wind),
           (''evaporation'', evap),
           (''precipitation'', precip),
           (''fire'', st)]"
    unfolding extractData_Inr by (auto simp: Feature_def)
  have temp: "tMean = Null \<and> tMin = Null \<and> tMax = Null"
    if "filterDate (start T) (end' T) ic = []"
  proof -
    from ti assms(4) that have "tImg = None"
      by (simp add: temperatureImage_def first_def)
    with ts g1 g2 g3 show ?thesis
      by (auto simp: tempStats_None Dictionary_get_def)
  qed
  have nv: "ndviM = Null" if "filterDate (start T) (end' T) (ndvi ee) = []"
    using that nd by (simp add: ndviImage_def first_def ndviMean_None)
  have pv: "popM = Null" if "filterDate (popStart T) (popEnd T) (population ee) = []"
    using that pp by (simp add: populationImage_def first_def popMean_None)
  have ev: "wind = Null \<and> evap = Null \<and> precip = Null"
    if "filterDate (start T) (end' T) (ERA5 ee) = []"
  proof -
    from that have "ERA5Image ee T = None"
      by (simp add: ERA5Image_def first_def)
    with er g4 g5 g6 show ?thesis
      by (auto simp: era5Stats_None Dictionary_get_def)
  qed
  show ?thesis
    using temp nv pv ev by (simp add: r rr fieldOf_def isOK_def)
qed

theorem coverage_gap_yields_sentinel_witness:
  "validEvent gapEE eventA1 (Fire gapEE) \<and> validCatalogues gapEE \<and>
   Date (parseDate gapEE) (Feature_get eventA1 ''CONT_DATE'') = Inr eventDate \<and>
   temperature gapEE = Inr (map celsiusImage (MOD11A1 gapEE)) \<and>
   filterDate (start eventDate) (end' eventDate) (map celsiusImage (MOD11A1 gapEE)) = [] \<and>
   filterDate (start eventDate) (end' eventDate) (ndvi gapEE) = [] \<and>
   filterDate (popStart eventDate) (popEnd eventDate) (population gapEE) = [] \<and>
   filterDate (start eventDate) (end' eventDate) (ERA5 gapEE) = [] \<and>
   fieldOf (extractData gapEE eventA1 (Fire gapEE) (Num 1)) ''temperatureMean'' = Some Null \<and>
   fieldOf (extractData gapEE eventA1 (Fire gapEE) (Num 1)) ''Min_Temperature'' = Some Null \<and>
   fieldOf (extractData gapEE eventA1 (Fire gapEE) (Num 1)) ''Max_Temperature'' = Some Null \<and>
   fieldOf (extractData gapEE eventA1 (Fire gapEE) (Num 1)) ''ndviMean'' = Some Null \<and>
   fieldOf (extractData gapEE eventA1 (Fire gapEE) (Num 1)) ''population'' = Some Null \<and>
   fieldOf (extractData gapEE eventA1 (Fire gapEE) (Num 1)) ''windspeed'' = Some Null \<and>
   fieldOf (extractData gapEE eventA1 (Fire gapEE) (Num 1)) ''evaporation'' = Some Null \<and>
   fieldOf (extractData gapEE eventA1 (Fire gapEE) (Num 1)) ''precipitation'' = Some Null"
proof -
  have ev: "validEvent gapEE eventA1 (Fire gapEE)"
    using event_example by (simp add: Fire_variants)
  have cat: "validCatalogues gapEE" by (rule catalogues_variants)
  have d: "Date (parseDate gapEE) (Feature_get eventA1 ''CONT_DATE'') = Inr eventDate"
    by (rule date_example)
  have t: "temperature gapEE = Inr (map celsiusImage (MOD11A1 gapEE))"
    using cat by (rule temperature_valid)
  from coverage_gap_yields_sentinel [OF ev cat d t, of "Num 1"] ev cat d t gap_windows
  show ?thesis
    by simp
qed

subsection \<open>C2\<close>

text \<open>
  Claim C2. For an event of date \<open>T\<close>, the window of the temperature, NDVI and ERA5
  searches runs from \<open>T\<close> minus one day (86400000 milliseconds) to \<open>T\<close> plus one
  day, the window of the population search from \<open>T\<close> minus three years to \<open>T\<close>
  plus three years; each search takes the first image of its collection inside the
  half-open window, and the date filter keeps an image exactly when its acquisition
  instant is at or after the start and before the end.
\<close>

theorem temporal_windows:
  "start T = T - 86400000 \<and> end' T = T + 86400000 \<and>
   popStart T = Date_advance (- 3) Year T \<and> popEnd T = Date_advance 3 Year T \<and>
   temperatureImage ee T =
     bindE (temperature ee)
       (\<lambda>ic. Inr (first (filter (inWindow (T - 86400000) (T + 86400000)) ic))) \<and>
   ndviImage ee T = first (filter (inWindow (T - 86400000) (T + 86400000)) (ndvi ee)) \<and>
   ERA5Image ee T = first (filter (inWindow (T - 86400000) (T + 86400000)) (ERA5 ee)) \<and>
   populationImage ee T =
     first (filter (inWindow (Date_advance (- 3) Year T) (Date_advance 3 Year T))
       (population ee)) \<and>
   (img \<in> set (filterDate s e ic) \<longleftrightarrow>
      img \<in> set ic \<and> (\<exists>t. time_start img = Some t \<and> s \<le> t \<and> t < e))"
  by (auto simp: start_day end_day popStart_def popEnd_def temperatureImage_def ndviImage_def
      ERA5Image_def populationImage_def filterDate_def inDateRange_inWindow inWindow_def
      split: option.splits)

theorem temporal_windows_witness:
  "start eventDate = 1593734400000 \<and> end' eventDate = 1593907200000 \<and>
   popStart eventDate = 1499126400000 \<and> popEnd eventDate = 1688428800000 \<and>
   ndviImage exampleEE eventDate = Some (snapshot eventDate [(''NDVI'', uniform 0.5)]) \<and>
   populationImage exampleEE eventDate =
     Some (snapshot 1577836800000 [(''population_density'', uniform 12)]) \<and>
   ndviImage gapEE eventDate = None \<and> populationImage gapEE eventDate = None"
proof -
  have w: "inWindow (eventDate - 86400000) (eventDate + 86400000)
             (snapshot eventDate [(''NDVI'', uniform 0.5)])"
    "inWindow (Date_advance (- 3) Year eventDate) (Date_advance 3 Year eventDate)
       (snapshot 1577836800000 [(''population_density'', uniform 12)])"
    "\<not> inWindow (eventDate - 86400000) (eventDate + 86400000)
             (snapshot (eventDate + 2 * 86400000) [(''NDVI'', uniform 0.5)])"
    "\<not> inWindow (Date_advance (- 3) Year eventDate) (Date_advance 3 Year eventDate)
       (snapshot 946684800000 [(''population_density'', uniform 12)])"
    using popStart_example popEnd_example
    by (simp_all add: inWindow_def snapshot_def eventDate_def popStart_def popEnd_def)
  have c: "ndvi exampleEE = [snapshot eventDate [(''NDVI'', uniform 0.5)]]"
    "population exampleEE = [snapshot 1577836800000 [(''population_density'', uniform 12)]]"
    "ndvi gapEE = [snapshot (eventDate + 2 * 86400000) [(''NDVI'', uniform 0.5)]]"
    "population gapEE = [snapshot 946684800000 [(''population_density'', uniform 12)]]"
    by (simp_all add: ndvi_def population_def exampleEE_def gapEE_def)
  from temporal_windows [of eventDate exampleEE] have
    "start eventDate = eventDate - 86400000" "end' eventDate = eventDate + 86400000"
    "ndviImage exampleEE eventDate =
       first (filter (inWindow (eventDate - 86400000) (eventDate + 86400000)) (ndvi exampleEE))"
    "populationImage exampleEE eventDate =
       first (filter (inWindow (Date_advance (- 3) Year eventDate) (Date_advance 3 Year eventDate))
         (population exampleEE))"
    by blast+
  moreover from temporal_windows [of eventDate gapEE] have
    "ndviImage gapEE eventDate =
       first (filter (inWindow (eventDate - 86400000) (eventDate + 86400000)) (ndvi gapEE))"
    "populationImage gapEE eventDate =
       first (filter (inWindow (Date_advance (- 3) Year eventDate) (Date_advance 3 Year eventDate))
         (population gapEE))"
    by blast+
  ultimately show ?thesis
    unfolding c using w
    by (simp add: first_def windows_numeral eventDate_def)
qed

subsection \<open>C3\<close>

text \<open>
  Claim C3. Every record that the extraction returns has exactly the 17 fields named by
  the selectors, each once, whatever the coverage of the sources. The selectors are the
  17 column names in the order of the specification. An export yields a table exactly
  when its batch yields records; the table has the selectors as header and one row for
  every record, in the order of the events, and a row holds the fields of its record in
  the order of the selectors: the ID, the window start, latitude and longitude of the
  event, the three temperature statistics, NDVI, slope and elevation means, the distance
  to water and then the distance to a road (the record lists them the other way round),
  the population, wind, evaporation and precipitation means and the label. The fire and
  the non-fire export differ in the collection, the label and the file name only.
\<close>

theorem output_schema:
  assumes "extractData ee feat fc st = Inr r"
  shows "set (map fst (properties r)) = set selectors \<and>
     distinct (map fst (properties r)) \<and> length (properties r) = 17 \<and>
     selectors =
       [''ID'', ''creationDate'', ''Lat'', ''Long'', ''temperatureMean'', ''Min_Temperature'',
        ''Max_Temperature'', ''ndviMean'', ''slope'', ''elevation'', ''Dis_Water'', ''Dis_Road'',
        ''population'', ''windspeed'', ''evaporation'', ''precipitation'', ''fire''] \<and>
     (\<exists>T tMean tMin tMax ndviM slopeM elevationM popM wind evap precip.
        properties r =
          [(''ID'', Feature_get feat ''ID''),
           (''creationDate'', DateV (start T)),
           (''Lat'', Feature_get feat ''Lat''), (''Long'', Feature_get feat ''Long''),
           (''temperatureMean'', tMean),
           (''Min_Temperature'', tMin),
           (''Max_Temperature'', tMax),
           (''ndviMean'', ndviM),
           (''slope'', slopeM),
           (''elevation'', elevationM),
           (''Dis_Road'', Feature_get feat ''D_Road''),
           (''Dis_Water'', Feature_get feat ''D_Water''),
           (''population'', popM),
           (''windspeed'', wind),
           (''evaporation'', evap),
           (''precipitation'', precip),
           (''fire'', st)] \<and>
        map (Feature_get r) selectors =
          [Feature_get feat ''ID'', DateV (start T), Feature_get feat ''Lat'',
           Feature_get feat ''Long'', tMean, tMin, tMax, ndviM, slopeM, elevationM,
           Feature_get feat ''D_Water'', Feature_get feat ''D_Road'', popM, wind, evap, precip,
           st]) \<and>
     (\<forall>t. Fire_Data_Corrected ee = Inr t \<longleftrightarrow>
        (\<exists>rs. list_all2 (\<lambda>feat x. extractData ee feat (Fire ee) (Num 1) = Inr x) (Fire ee) rs \<and>
           t = \<lparr>folder = ''Fire'', description = ''Fire_Data_Corrected'', fileFormat = ''CSV'',
                header = selectors, rows = map (\<lambda>x. map (Feature_get x) selectors) rs\<rparr>)) \<and>
     (\<forall>t. Non_Fire_Data_Corrected ee = Inr t \<longleftrightarrow>
        (\<exists>rs. list_all2 (\<lambda>feat x. extractData ee feat (NonFire ee) (Num 0) = Inr x)
              (NonFire ee) rs \<and>
           t = \<lparr>folder = ''Fire'', description = ''Non_Fire_Data_Corrected'',
                fileFormat = ''CSV'',
                header = selectors, rows = map (\<lambda>x. map (Feature_get x) selectors) rs\<rparr>)) \<and>
     (\<forall>t. Fire_Data_Corrected ee = Inr t \<longrightarrow>
        header t = selectors \<and> (\<forall>row \<in> set (rows t). length row = 17)) \<and>
     (\<forall>t. Non_Fire_Data_Corrected ee = Inr t \<longrightarrow>
        header t = selectors \<and> (\<forall>row \<in> set (rows t). length row = 17))"
proof -
  from assms obtain T tMean tMin tMax ndviM slopeM elevationM popM wind evap precip where
    rr: "properties r =
          [(''ID'', Feature_get feat ''ID''),
           (''creationDate'', DateV (start T)),
           (''Lat'', Feature_get feat ''Lat''), (''Long'', Feature_get feat ''Long''),
           (''temperatureMean'', tMean),
           (''Min_Temperature'', tMin),
           (''Max_Temperature'', tMax),
           (''ndviMean'', ndviM),
           (''slope'', slopeM),
           (''elevation'', elevationM),
           (''Dis_Road'', Feature_get feat ''D_Road''),
           (''Dis_Water'', Feature_get feat ''D_Water''),
           (''population'', popM),
           (''windspeed'', wind),
           (''evaporation'', evap),
           (''precipitation'', precip),
           (''fire'', st)]"
    by (rule extractData_InrE)
  have keys: "set (map fst (properties r)) = set selectors"
    unfolding rr by (simp add: selectors_def insert_commute [of "''Dis_Road''" "''Dis_Water''"])
  have dist: "distinct (map fst (properties r))"
    unfolding rr by simp
  have len: "length (properties r) = 17"
    unfolding rr by simp
  have sel: "selectors =
       [''ID'', ''creationDate'', ''Lat'', ''Long'', ''temperatureMean'', ''Min_Temperature'',
        ''Max_Temperature'', ''ndviMean'', ''slope'', ''elevation'', ''Dis_Water'', ''Dis_Road'',
        ''population'', ''windspeed'', ''evaporation'', ''precipitation'', ''fire'']"
    by (simp add: selectors_def)
  have row: "map (Feature_get r) selectors =
          [Feature_get feat ''ID'', DateV (start T), Feature_get feat ''Lat'',
           Feature_get feat ''Long'', tMean, tMin, tMax, ndviM, slopeM, elevationM,
           Feature_get feat ''D_Water'', Feature_get feat ''D_Road'', popM, wind, evap, precip,
           st]"
    by (simp add: selectors_def Feature_get_def [of r] rr)
  have fire_iff: "Fire_Data_Corrected ee = Inr t \<longleftrightarrow>
        (\<exists>rs. list_all2 (\<lambda>feat x. extractData ee feat (Fire ee) (Num 1) = Inr x) (Fire ee) rs \<and>
           t = \<lparr>folder = ''Fire'', description = ''Fire_Data_Corrected'', fileFormat = ''CSV'',
                header = selectors, rows = map (\<lambda>x. map (Feature_get x) selectors) rs\<rparr>)" for t
    unfolding Fire_Data_Corrected_def export_iff FireVariables_def batch_iff ..
  have nonfire_iff: "Non_Fire_Data_Corrected ee = Inr t \<longleftrightarrow>
        (\<exists>rs. list_all2 (\<lambda>feat x. extractData ee feat (NonFire ee) (Num 0) = Inr x)
              (NonFire ee) rs \<and>
           t = \<lparr>folder = ''Fire'', description = ''Non_Fire_Data_Corrected'',
                fileFormat = ''CSV'',
                header = selectors, rows = map (\<lambda>x. map (Feature_get x) selectors) rs\<rparr>)" for t
    unfolding Non_Fire_Data_Corrected_def export_iff NonFireVariables_def batch_iff ..
  have fire: "header t = selectors \<and> (\<forall>row \<in> set (rows t). length row = 17)"
    if "Fire_Data_Corrected ee = Inr t" for t
    using that unfolding Fire_Data_Corrected_def by (rule export_columns)
  have nonfire: "header t = selectors \<and> (\<forall>row \<in> set (rows t). length row = 17)"
    if "Non_Fire_Data_Corrected ee = Inr t" for t
    using that unfolding Non_Fire_Data_Corrected_def by (rule export_columns)
  from rr row have ex: "\<exists>T tMean tMin tMax ndviM slopeM elevationM popM wind evap precip.
        properties r =
          [(''ID'', Feature_get feat ''ID''),
           (''creationDate'', DateV (start T)),
           (''Lat'', Feature_get feat ''Lat''), (''Long'', Feature_get feat ''Long''),
           (''temperatureMean'', tMean),
           (''Min_Temperature'', tMin),
           (''Max_Temperature'', tMax),
           (''ndviMean'', ndviM),
           (''slope'', slopeM),
           (''elevation'', elevationM),
           (''Dis_Road'', Feature_get feat ''D_Road''),
           (''Dis_Water'', Feature_get feat ''D_Water''),
           (''population'', popM),
           (''windspeed'', wind),
           (''evaporation'', evap),
           (''precipitation'', precip),
           (''fire'', st)] \<and>
        map (Feature_get r) selectors =
          [Feature_get feat ''ID'', DateV (start T), Feature_get feat ''Lat'',
           Feature_get feat ''Long'', tMean, tMin, tMax, ndviM, slopeM, elevationM,
           Feature_get feat ''D_Water'', Feature_get feat ''D_Road'', popM, wind, evap, precip,
           st]"
    by (intro exI conjI)
  show ?thesis
    apply (intro conjI allI)
            apply (rule keys)
           apply (rule dist)
          apply (rule len)
         apply (rule sel)
        apply (rule ex)
       apply (rule fire_iff)
      apply (rule nonfire_iff)
     apply (rule impI, erule fire)
    apply (rule impI, erule nonfire)
    done
qed

theorem output_schema_witness:
  "\<exists>tMean tMin tMax.
     approximately 36.85 (Some tMean) \<and> approximately 36.85 (Some tMin) \<and>
     approximately 36.85 (Some tMax) \<and>
     Fire_Data_Corrected exampleEE =
       Inr \<lparr>folder = ''Fire'', description = ''Fire_Data_Corrected'', fileFormat = ''CSV'',
            header =
              [''ID'', ''creationDate'', ''Lat'', ''Long'', ''temperatureMean'',
               ''Min_Temperature'', ''Max_Temperature'', ''ndviMean'', ''slope'', ''elevation'',
               ''Dis_Water'', ''Dis_Road'', ''population'', ''windspeed'', ''evaporation'',
               ''precipitation'', ''fire''],
            rows =
              [ [Str ''A1'', DateV 1593734400000, Num 34.5, Num (- 118.25), tMean, tMin, tMax,
                Num 0.5, Num 0, Num 100, Num 450, Num 120, Num 12, Num 5, Num (- 0.001),
                Num 0.002, Num 1] ]\<rparr> \<and>
     Non_Fire_Data_Corrected exampleEE =
       Inr \<lparr>folder = ''Fire'', description = ''Non_Fire_Data_Corrected'', fileFormat = ''CSV'',
            header =
              [''ID'', ''creationDate'', ''Lat'', ''Long'', ''temperatureMean'',
               ''Min_Temperature'', ''Max_Temperature'', ''ndviMean'', ''slope'', ''elevation'',
               ''Dis_Water'', ''Dis_Road'', ''population'', ''windspeed'', ''evaporation'',
               ''precipitation'', ''fire''],
            rows =
              [ [Str ''A1'', DateV 1593734400000, Num 34.5, Num (- 118.25), tMean, tMin, tMax,
                Num 0.5, Num 0, Num 100, Num 450, Num 120, Num 12, Num 5, Num (- 0.001),
                Num 0.002, Num 0] ]\<rparr> \<and>
     Fire_Data_Corrected gapEE =
       Inr \<lparr>folder = ''Fire'', description = ''Fire_Data_Corrected'', fileFormat = ''CSV'',
            header =
              [''ID'', ''creationDate'', ''Lat'', ''Long'', ''temperatureMean'',
               ''Min_Temperature'', ''Max_Temperature'', ''ndviMean'', ''slope'', ''elevation'',
               ''Dis_Water'', ''Dis_Road'', ''population'', ''windspeed'', ''evaporation'',
               ''precipitation'', ''fire''],
            rows =
              [ [Str ''A1'', DateV 1593734400000, Num 34.5, Num (- 118.25), Null, Null, Null,
                Null, Num 0, Num 100, Num 450, Num 120, Null, Null, Null, Null, Num 1] ]\<rparr>"
proof -
  note ex = output_schema [OF record_example [of "Num 1"]]
  note gap = output_schema [OF record_gap [of "Num 1"]]
  have sel: "selectors =
       [''ID'', ''creationDate'', ''Lat'', ''Long'', ''temperatureMean'', ''Min_Temperature'',
        ''Max_Temperature'', ''ndviMean'', ''slope'', ''elevation'', ''Dis_Water'', ''Dis_Road'',
        ''population'', ''windspeed'', ''evaporation'', ''precipitation'', ''fire'']"
    by (rule ex [THEN conjunct2, THEN conjunct2, THEN conjunct2, THEN conjunct1])
  note fire_iff = ex [THEN conjunct2, THEN conjunct2, THEN conjunct2, THEN conjunct2,
      THEN conjunct2, THEN conjunct1, rule_format]
  note nonfire_iff = ex [THEN conjunct2, THEN conjunct2, THEN conjunct2, THEN conjunct2,
      THEN conjunct2, THEN conjunct2, THEN conjunct1, rule_format]
  note gap_iff = gap [THEN conjunct2, THEN conjunct2, THEN conjunct2, THEN conjunct2,
      THEN conjunct2, THEN conjunct1, rule_format]
  have fire: "Fire_Data_Corrected exampleEE =
      Inr \<lparr>folder = ''Fire'', description = ''Fire_Data_Corrected'', fileFormat = ''CSV'',
           header = selectors,
           rows = map (\<lambda>x. map (Feature_get x) selectors)
             [Feature None
               [(''ID'', Str ''A1''), (''creationDate'', DateV 1593734400000),
                (''Lat'', Num 34.5), (''Long'', Num (- 118.25)),
                (''temperatureMean'', Num (celsius 15500)),
                (''Min_Temperature'', Num (celsius 15500)),
                (''Max_Temperature'', Num (celsius 15500)),
                (''ndviMean'', Num 0.5), (''slope'', Num 0), (''elevation'', Num 100),
                (''Dis_Road'', Num 120), (''Dis_Water'', Num 450), (''population'', Num 12),
                (''windspeed'', Num 5), (''evaporation'', Num (- 0.001)),
                (''precipitation'', Num 0.002), (''fire'', Num 1)]]\<rparr>"
    apply (rule fire_iff [THEN iffD2])
    apply (intro exI conjI)
     prefer 2
     apply (rule refl)
    apply (simp add: Fire_example record_example)
    done
  have nonfire: "Non_Fire_Data_Corrected exampleEE =
      Inr \<lparr>folder = ''Fire'', description = ''Non_Fire_Data_Corrected'', fileFormat = ''CSV'',
           header = selectors,
           rows = map (\<lambda>x. map (Feature_get x) selectors)
             [Feature None
               [(''ID'', Str ''A1''), (''creationDate'', DateV 1593734400000),
                (''Lat'', Num 34.5), (''Long'', Num (- 118.25)),
                (''temperatureMean'', Num (celsius 15500)),
                (''Min_Temperature'', Num (celsius 15500)),
                (''Max_Temperature'', Num (celsius 15500)),
                (''ndviMean'', Num 0.5), (''slope'', Num 0), (''elevation'', Num 100),
                (''Dis_Road'', Num 120), (''Dis_Water'', Num 450), (''population'', Num 12),
                (''windspeed'', Num 5), (''evaporation'', Num (- 0.001)),
                (''precipitation'', Num 0.002), (''fire'', Num 0)]]\<rparr>"
    apply (rule nonfire_iff [THEN iffD2])
    apply (intro exI conjI)
     prefer 2
     apply (rule refl)
    apply (simp add: Fire_variants record_example)
    done
  have gapfire: "Fire_Data_Corrected gapEE =
      Inr \<lparr>folder = ''Fire'', description = ''Fire_Data_Corrected'', fileFormat = ''CSV'',
           header = selectors,
           rows = map (\<lambda>x. map (Feature_get x) selectors)
             [Feature None
               [(''ID'', Str ''A1''), (''creationDate'', DateV 1593734400000),
                (''Lat'', Num 34.5), (''Long'', Num (- 118.25)),
                (''temperatureMean'', Null), (''Min_Temperature'', Null),
                (''Max_Temperature'', Null),
                (''ndviMean'', Null), (''slope'', Num 0), (''elevation'', Num 100),
                (''Dis_Road'', Num 120), (''Dis_Water'', Num 450), (''population'', Null),
                (''windspeed'', Null), (''evaporation'', Null), (''precipitation'', Null),
                (''fire'', Num 1)]]\<rparr>"
    apply (rule gap_iff [THEN iffD2])
    apply (intro exI conjI)
     prefer 2
     apply (rule refl)
    apply (simp add: Fire_variants record_gap)
    done
  show ?thesis
    apply (rule exI [of _ "Num (celsius 15500)"])
    apply (rule exI [of _ "Num (celsius 15500)"])
    apply (rule exI [of _ "Num (celsius 15500)"])
    apply (simp only: fire nonfire gapfire celsius_310 simp_thms)
    apply (simp add: sel Feature_get_def Feature_def)
    done
qed

subsection \<open>C4\<close>

text \<open>
  Claim C4, amended. The batch has no isolation of errors and never yields one record
  less than it has events: if the extraction of some event of the collection fails, the
  batch as a whole ends in an error and yields no records; a batch that completes has one
  record for every event, and then every extraction succeeded. An extraction fails when
  the ID of the event finds no feature, the filter on the ID is refused, or the date of
  the event cannot be read. An event of the collection whose ID is not null always finds
  a feature, so only an event with a null ID can stay unmatched, and whether it does is
  the platform's conduct on a null value. The fire and the non-fire collection are such
  batches.
\<close>

theorem batch_fails_as_a_whole:
  "((\<exists>feat \<in> set fc. \<not> isOK (extractData ee feat fc st)) \<longrightarrow>
      \<not> isOK (FeatureCollection_map (\<lambda>feat. extractData ee feat fc st) fc)) \<and>
   (\<forall>rs. FeatureCollection_map (\<lambda>feat. extractData ee feat fc st) fc = Inr rs \<longrightarrow>
      length rs = length fc \<and> (\<forall>feat \<in> set fc. isOK (extractData ee feat fc st))) \<and>
   (fc \<noteq> [] \<longrightarrow>
      recordCount (FeatureCollection_map (\<lambda>feat. extractData ee feat fc st) fc) \<noteq>
        Some (length fc - 1)) \<and>
   (\<forall>feat. idMatches ee feat fc = Inr [] \<or> \<not> isOK (idMatches ee feat fc) \<longrightarrow>
      \<not> isOK (extractData ee feat fc st)) \<and>
   (\<forall>feat. \<not> isOK (Date (parseDate ee) (Feature_get feat ''CONT_DATE'')) \<longrightarrow>
      \<not> isOK (extractData ee feat fc st)) \<and>
   (\<forall>feat \<in> set fc. Feature_get feat ''ID'' \<noteq> Null \<longrightarrow>
      (\<exists>m ms. idMatches ee feat fc = Inr (m # ms))) \<and>
   FireVariables ee =
     FeatureCollection_map (\<lambda>feat. extractData ee feat (Fire ee) (Num 1)) (Fire ee) \<and>
   NonFireVariables ee =
     FeatureCollection_map (\<lambda>feat. extractData ee feat (NonFire ee) (Num 0)) (NonFire ee)"
proof -
  let ?batch = "FeatureCollection_map (\<lambda>feat. extractData ee feat fc st) fc"
  have fails: "\<not> isOK ?batch"
    if "feat \<in> set fc" and "\<not> isOK (extractData ee feat fc st)" for feat
  proof -
    from that(2) obtain e where "extractData ee feat fc st = Inl e"
      by (auto simp: not_isOK_iff)
    with that(1) have "\<exists>e'. ?batch = Inl e'" by (rule batch_fails)
    then show ?thesis by (auto simp: not_isOK_iff)
  qed
  have len: "length rs = length fc" if "?batch = Inr rs" for rs
    using batch_records [OF that] by simp
  have ok: "isOK (extractData ee feat fc st)" if "?batch = Inr rs" and "feat \<in> set fc" for rs feat
    using that fails [of feat] by (auto simp: isOK_def)
  have count: "recordCount ?batch \<noteq> Some (length fc - 1)" if "fc \<noteq> []"
  proof (cases ?batch)
    case (Inl e)
    then show ?thesis by (simp add: recordCount_def)
  next
    case (Inr rs)
    with len [OF Inr] that show ?thesis
      by (cases fc) (simp_all add: recordCount_def)
  qed
  have unmatched: "\<not> isOK (extractData ee feat fc st)"
    if "idMatches ee feat fc = Inr [] \<or> \<not> isOK (idMatches ee feat fc)" for feat
  proof -
    from that have "\<exists>e. extractData ee feat fc st = Inl e"
    proof
      assume "idMatches ee feat fc = Inr []"
      then show ?thesis using extractData_no_match by blast
    next
      assume "\<not> isOK (idMatches ee feat fc)"
      then obtain e where "idMatches ee feat fc = Inl e"
        unfolding not_isOK_iff by blast
      then show ?thesis using extractData_lookup_fails by blast
    qed
    then show ?thesis unfolding not_isOK_iff .
  qed
  have undated: "\<not> isOK (extractData ee feat fc st)"
    if "\<not> isOK (Date (parseDate ee) (Feature_get feat ''CONT_DATE''))" for feat
  proof (cases "idMatches ee feat fc")
    case (Inl e)
    then have "\<not> isOK (idMatches ee feat fc)" by (simp add: isOK_def)
    then show ?thesis using unmatched by blast
  next
    case (Inr matched)
    show ?thesis
    proof (cases matched)
      case Nil
      with Inr show ?thesis using unmatched by blast
    next
      case (Cons m ms)
      from that obtain e where
        "Date (parseDate ee) (Feature_get feat ''CONT_DATE'') = Inl e"
        unfolding not_isOK_iff by blast
      with Inr Cons have "extractData ee feat fc st = Inl e"
        using extractData_date_fails by blast
      then show ?thesis by (simp add: isOK_def)
    qed
  qed
  have self: "\<exists>m ms. idMatches ee feat fc = Inr (m # ms)"
    if "feat \<in> set fc" and "Feature_get feat ''ID'' \<noteq> Null" for feat
    using that by (rule idMatches_finds_itself)
  show ?thesis
    using fails len ok count unmatched undated self
    by (simp add: FireVariables_def NonFireVariables_def) blast
qed

theorem batch_isolation_counterexample:
  "Fire malformedEE = [eventA1, eventNoID] \<and>
   isOK (extractData malformedEE eventA1 (Fire malformedEE) (Num 1)) \<and>
   idMatches malformedEE eventNoID (Fire malformedEE) = Inr [] \<and>
   FireVariables malformedEE = Inl (NullArgument ''feature'') \<and>
   Fire_Data_Corrected malformedEE = Inl (NullArgument ''feature'') \<and>
   Fire malformedRefusedEE = [eventA1, eventNoID] \<and>
   idMatches malformedRefusedEE eventNoID (Fire malformedRefusedEE) =
     Inl (NullArgument ''rightValue'') \<and>
   FireVariables malformedRefusedEE = Inl (NullArgument ''rightValue'') \<and>
   Fire malformedMissingEE = [eventA1, eventNoID] \<and>
   idMatches malformedMissingEE eventNoID (Fire malformedMissingEE) = Inr [eventNoID] \<and>
   recordCount (FireVariables malformedMissingEE) = Some 2 \<and>
   Fire badDateEE = [eventA1, eventBadDate] \<and>
   FireVariables badDateEE = Inl InvalidDate"
proof -
  have "isOK (extractData malformedEE eventA1 (Fire malformedEE) (Num 1))"
    using extractData_succeeds [OF event_malformed catalogues_variants(4)]
    by (simp add: isOK_iff)
  moreover have "Fire_Data_Corrected malformedEE = Inl (NullArgument ''feature'')"
    by (simp add: FireVariables_malformed Fire_Data_Corrected_def Export_table_toDrive_def)
  ultimately show ?thesis
    using Fire_malformed no_match_malformed FireVariables_malformed Fire_malformed_variants
      match_noID FireVariables_refused FireVariables_missing Fire_badDate FireVariables_badDate
    by (intro conjI) assumption+
qed

theorem batch_fails_as_a_whole_witness:
  "eventNoID \<in> set (Fire malformedEE) \<and>
   idMatches malformedEE eventNoID (Fire malformedEE) = Inr [] \<and>
   \<not> isOK (extractData malformedEE eventNoID (Fire malformedEE) (Num 1)) \<and>
   \<not> isOK (FireVariables malformedEE) \<and>
   recordCount (FireVariables malformedEE) = None \<and>
   eventA1 \<in> set (Fire malformedEE) \<and> Feature_get eventA1 ''ID'' = Str ''A1'' \<and>
   (\<exists>m ms. idMatches malformedEE eventA1 (Fire malformedEE) = Inr (m # ms)) \<and>
   eventBadDate \<in> set (Fire badDateEE) \<and>
   Date (parseDate badDateEE) (Feature_get eventBadDate ''CONT_DATE'') = Inl InvalidDate \<and>
   \<not> isOK (extractData badDateEE eventBadDate (Fire badDateEE) (Num 1)) \<and>
   \<not> isOK (FireVariables badDateEE) \<and>
   (\<exists>rs. FireVariables exampleEE = Inr rs \<and> length rs = length (Fire exampleEE) \<and>
         isOK (extractData exampleEE eventA1 (Fire exampleEE) (Num 1)))"
proof -
  note bad = batch_fails_as_a_whole [of "Fire badDateEE" badDateEE "Num 1"]
  have b: "eventBadDate \<in> set (Fire badDateEE)"
    by (simp add: Fire_badDate)
  have "\<not> isOK (Date (parseDate badDateEE) (Feature_get eventBadDate ''CONT_DATE''))"
    by (simp add: date_badDate isOK_def)
  with bad have 5: "\<not> isOK (extractData badDateEE eventBadDate (Fire badDateEE) (Num 1))"
    by blast
  with bad b have 6: "\<not> isOK (FireVariables badDateEE)"
    by metis
  note th = batch_fails_as_a_whole [of "Fire malformedEE" malformedEE "Num 1"]
  have a: "eventNoID \<in> set (Fire malformedEE)" "eventA1 \<in> set (Fire malformedEE)"
    by (simp_all add: Fire_malformed)
  have i: "Feature_get eventA1 ''ID'' = Str ''A1''"
    by (simp add: Feature_get_def eventA1_def)
  from th no_match_malformed
  have 1: "\<not> isOK (extractData malformedEE eventNoID (Fire malformedEE) (Num 1))"
    by blast
  with th a(1) have 2: "\<not> isOK (FireVariables malformedEE)"
    by metis
  then have 3: "recordCount (FireVariables malformedEE) = None"
    by (auto simp: not_isOK_iff recordCount_def)
  from th a(2) i have 4: "\<exists>m ms. idMatches malformedEE eventA1 (Fire malformedEE) = Inr (m # ms)"
    by (metis val.distinct(3))
  obtain rs where rs: "FireVariables exampleEE = Inr rs"
    using FireVariables_example by blast
  with batch_fails_as_a_whole [of "Fire exampleEE" exampleEE "Num 1"]
  have "length rs = length (Fire exampleEE) \<and>
      isOK (extractData exampleEE eventA1 (Fire exampleEE) (Num 1))"
    by (metis Fire_example list.set_intros(1))
  with a i no_match_malformed 1 2 3 4 b date_badDate 5 6 rs show ?thesis by blast
qed

subsection \<open>C5\<close>



subsection \<open>C6\<close>

text \<open>
  Claim C6. When an ERA5 snapshot is found for the event, the field \<^verbatim>\<open>windspeed\<close> of
  the record is the mean, over the cells of the geometry where both wind components are
  unmasked, of the magnitude \<open>sqrt (u\<^sup>2 + v\<^sup>2)\<close> computed cell by cell (and null when
  there is no such cell).
\<close>

theorem windspeed_is_mean_of_magnitude:
  assumes r: "extractData ee feat fc st = Inr r"
    and T: "Date (parseDate ee) (Feature_get feat ''CONT_DATE'') = Inr T"
    and m: "idMatches ee feat fc = Inr (m # ms)"
    and img: "ERA5Image ee T = Some img"
  shows "\<exists>ub vb.
     map_of (bands img) ''u_component_of_wind_10m'' = Some ub \<and>
     map_of (bands img) ''v_component_of_wind_10m'' = Some vb \<and>
     map_of (properties r) ''windspeed'' =
       Some (if valuesUnder (magnitude ub vb) (geometry m) 1000 = [] then Null
             else Num (sum_list (valuesUnder (magnitude ub vb) (geometry m) 1000) /
                       real (length (valuesUnder (magnitude ub vb) (geometry m) 1000))))"
proof -
  from r obtain m' ms' T' era5Stat wind where
    m': "idMatches ee feat fc = Inr (m' # ms')"
    and T': "Date (parseDate ee) (Feature_get feat ''CONT_DATE'') = Inr T'"
    and er: "era5Stats (geometry m') (ERA5Image ee T') = Inr era5Stat"
    and w: "Dictionary_get era5Stat ''wind'' = Inr wind"
    and rr: "map_of (properties r) ''windspeed'' = Some wind"
    by (rule extractData_InrE) simp
  from m m' T T' have eq: "m' = m" "T' = T" by simp_all
  from er img have "era5Stats (geometry m) (Some img) = Inr era5Stat"
    by (simp add: eq)
  then obtain ub vb where
    "map_of (bands img) ''u_component_of_wind_10m'' = Some ub"
    "map_of (bands img) ''v_component_of_wind_10m'' = Some vb"
    "map_of era5Stat ''wind'' = Some (meanOf (valuesUnder (magnitude ub vb) (geometry m) scale))"
    unfolding era5Stats_Some by auto
  with w rr show ?thesis
    by (auto simp: Dictionary_get_def meanOf_def scale_def)
qed

theorem windspeed_is_mean_of_magnitude_witness:
  "Date (parseDate exampleEE) (Feature_get eventA1 ''CONT_DATE'') = Inr eventDate \<and>
   idMatches exampleEE eventA1 (Fire exampleEE) = Inr [eventA1] \<and>
   ERA5Image exampleEE eventDate = Some (snapshot (eventDate + 14 * 3600000) era5Bands) \<and>
   fieldOf (extractData exampleEE eventA1 (Fire exampleEE) (Num 1)) ''windspeed'' = Some (Num 5)"
proof -
  obtain r where r: "extractData exampleEE eventA1 (Fire exampleEE) (Num 1) = Inr r"
    using extractData_succeeds [OF event_example catalogues_example] by (auto simp: Fire_example)
  have m: "idMatches exampleEE eventA1 (Fire exampleEE) = Inr [eventA1]"
    unfolding Fire_example by (rule match_example)
  have v: "valuesUnder (magnitude (uniform 3) (uniform 4)) (geometry eventA1) 1000 = [5, 5]"
    by (simp add: valuesUnder_def List.map_filter_def magnitude_def uniform_def eventA1_def
        polygonP_def sqrt_25)
  from windspeed_is_mean_of_magnitude [OF r date_example m ERA5Image_example]
  have "map_of (properties r) ''windspeed'' = Some (Num 5)"
    by (auto simp: snapshot_def era5Bands_def v)
  with r m date_example ERA5Image_example show ?thesis
    by (simp add: fieldOf_def)
qed

subsection \<open>C7\<close>

text \<open>
  Claim C7. The field \<^verbatim>\<open>creationDate\<close> of a record is the date of the event minus
  one day, the start of the window of the daily sources.
\<close>

theorem creationDate_is_window_start:
  assumes "extractData ee feat fc st = Inr r"
  shows "\<exists>T. Date (parseDate ee) (Feature_get feat ''CONT_DATE'') = Inr T \<and>
             start T = T - 86400000 \<and>
             map_of (properties r) ''creationDate'' = Some (DateV (T - 86400000))"
  using assms unfolding extractData_Inr
  by (auto simp: Feature_def start_day)

theorem creationDate_is_window_start_witness:
  "\<exists>r. extractData exampleEE eventA1 (Fire exampleEE) (Num 1) = Inr r \<and>
       map_of (properties r) ''creationDate'' = Some (DateV 1593734400000)"
proof -
  obtain r where r: "extractData exampleEE eventA1 (Fire exampleEE) (Num 1) = Inr r"
    using extractData_succeeds [OF event_example catalogues_example] by (auto simp: Fire_example)
  from creationDate_is_window_start [OF r] show ?thesis
    using r by (auto simp: date_example eventDate_def)
qed

subsection \<open>C8\<close>

text \<open>
  Claim C8. For a well-formed event and every source, time-indexed or static: if the
  snapshot exists and the geometry meets no unmasked cell of it, the fields of the
  source are null, and the result of the source is the one it has when no snapshot
  exists; no error is raised.
\<close>

theorem no_valid_pixel_yields_sentinel:
  assumes ev: "validEvent ee feat fc" and cat: "validCatalogues ee"
    and T: "Date (parseDate ee) (Feature_get feat ''CONT_DATE'') = Inr T"
    and m: "idMatches ee feat fc = Inr (m # ms)"
  shows "isOK (extractData ee feat fc st) \<and>
     (\<forall>img. temperatureImage ee T = Inr (Some img) \<and> noValidPixel (geometry m) img \<longrightarrow>
        tempStats (geometry m) (Some img) = tempStats (geometry m) None \<and>
        fieldOf (extractData ee feat fc st) ''temperatureMean'' = Some Null \<and>
        fieldOf (extractData ee feat fc st) ''Min_Temperature'' = Some Null \<and>
        fieldOf (extractData ee feat fc st) ''Max_Temperature'' = Some Null) \<and>
     (\<forall>img. ndviImage ee T = Some img \<and> noValidPixel (geometry m) img \<longrightarrow>
        ndviMean (geometry m) (Some img) = ndviMean (geometry m) None \<and>
        fieldOf (extractData ee feat fc st) ''ndviMean'' = Some Null) \<and>
     (\<forall>img. populationImage ee T = Some img \<and> noValidPixel (geometry m) img \<longrightarrow>
        popMean (geometry m) (Some img) = popMean (geometry m) None \<and>
        fieldOf (extractData ee feat fc st) ''population'' = Some Null) \<and>
     (\<forall>img. ERA5Image ee T = Some img \<and> noValidPixel (geometry m) img \<longrightarrow>
        era5Stats (geometry m) (Some img) = era5Stats (geometry m) None \<and>
        fieldOf (extractData ee feat fc st) ''windspeed'' = Some Null \<and>
        fieldOf (extractData ee feat fc st) ''evaporation'' = Some Null \<and>
        fieldOf (extractData ee feat fc st) ''precipitation'' = Some Null) \<and>
     (\<forall>img. slope ee = Inr img \<and> noValidPixel (geometry m) img \<longrightarrow>
        fieldOf (extractData ee feat fc st) ''slope'' = Some Null) \<and>
     (\<forall>img. dem ee = Inr img \<and> noValidPixel (geometry m) img \<longrightarrow>
        fieldOf (extractData ee feat fc st) ''elevation'' = Some Null)"
proof -
  from ev cat obtain r where r: "extractData ee feat fc st = Inr r"
    using extractData_succeeds by blast
  from r obtain m' ms' T' tImg tempStat ndviM popM era5Stat slopeM elevationM
      tMean tMin tMax wind evap precip where
    h: "idMatches ee feat fc = Inr (m' # ms')"
    "Date (parseDate ee) (Feature_get feat ''CONT_DATE'') = Inr T'"
    and ti: "temperatureImage ee T' = Inr tImg"
    and ts: "tempStats (geometry m') tImg = Inr tempStat"
    and nd: "ndviMean (geometry m') (ndviImage ee T') = Inr ndviM"
    and pp: "popMean (geometry m') (populationImage ee T') = Inr popM"
    and er: "era5Stats (geometry m') (ERA5Image ee T') = Inr era5Stat"
    and sl: "slopeMean ee (geometry m') = Inr slopeM"
    and el: "elevationMean ee (geometry m') = Inr elevationM"
    and g1: "Dictionary_get tempStat ''LST_Day_1km_mean'' = Inr tMean"
    and g2: "Dictionary_get tempStat ''LST_Day_1km_min'' = Inr tMin"
    and g3: "Dictionary_get tempStat ''LST_Day_1km_max'' = Inr tMax"
    and g4: "Dictionary_get era5Stat ''wind'' = Inr wind"
    and g5: "Dictionary_get era5Stat ''evap'' = Inr evap"
    and g6: "Dictionary_get era5Stat ''precip'' = Inr precip"
    and rr: "properties r =
          [(''ID'', Feature_get feat ''ID''),
           (''creationDate'', DateV (start T')),
           (''Lat'', Feature_get feat ''Lat''), (''Long'', Feature_get feat ''Long''),
           (''temperatureMean'', tMean),
           (''Min_Temperature'', tMin),
           (''Max_Temperature'', tMax),
           (''ndviMean'', ndviM),
           (''slope'', slopeM),
           (''elevation'', elevationM),
           (''Dis_Road'', Feature_get feat ''D_Road''),
           (''Dis_Water'', Feature_get feat ''D_Water''),
           (''population'', popM),
           (''windspeed'', wind),
           (''evaporation'', evap),
           (''precipitation'', precip),
           (''fire'', st)]"
    by (rule extractData_InrE)
  from h m T have eq: "m' = m" "T' = T" by simp_all
  have temp: "tempStats (geometry m) (Some img) = tempStats (geometry m) None \<and>
      tMean = Null \<and> tMin = Null \<and> tMax = Null"
    if a: "temperatureImage ee T = Inr (Some img)" and nv: "noValidPixel (geometry m) img" for img
  proof -
    from a obtain b where
      b: "bands img = [(''LST_Day_1km'', \<lambda>p. map_option celsius (b p))]"
      by (rule temperatureImage_Some)
    with nv have e: "valuesUnder (\<lambda>p. map_option celsius (b p)) (geometry m) scale = []"
      by (simp add: noValidPixel_def)
    from b e have s: "tempStats (geometry m) (Some img) = tempStats (geometry m) None"
      by (simp add: tempStats_single tempStats_None)
    from a ti have "tImg = Some img" by (simp add: eq)
    with ts s g1 g2 g3 show ?thesis
      by (auto simp: eq tempStats_None Dictionary_get_def)
  qed
  have nv: "ndviMean (geometry m) (Some img) = ndviMean (geometry m) None \<and> ndviM = Null"
    if a: "ndviImage ee T = Some img" and nv: "noValidPixel (geometry m) img" for img
  proof -
    from nd a have "ndviMean (geometry m) (Some img) = Inr ndviM" by (simp add: eq)
    then obtain b where "map_of (bands img) ''NDVI'' = Some b"
      and v: "ndviM = meanOf (valuesUnder b (geometry m) scale)"
      unfolding ndviMean_Some by blast
    with nv have "ndviM = Null" by (simp add: noValidPixel_band)
    with nd a show ?thesis by (simp add: eq ndviMean_None)
  qed
  have pv: "popMean (geometry m) (Some img) = popMean (geometry m) None \<and> popM = Null"
    if a: "populationImage ee T = Some img" and nv: "noValidPixel (geometry m) img" for img
  proof -
    from pp a have "popMean (geometry m) (Some img) = Inr popM" by (simp add: eq)
    then obtain b where "map_of (bands img) ''population_density'' = Some b"
      and v: "popM = meanOf (valuesUnder b (geometry m) scale)"
      unfolding popMean_Some by blast
    with nv have "popM = Null" by (simp add: noValidPixel_band)
    with pp a show ?thesis by (simp add: eq popMean_None)
  qed
  have ev: "era5Stats (geometry m) (Some img) = era5Stats (geometry m) None \<and>
      wind = Null \<and> evap = Null \<and> precip = Null"
    if a: "ERA5Image ee T = Some img" and nv: "noValidPixel (geometry m) img" for img
  proof -
    from er a have e: "era5Stats (geometry m) (Some img) = Inr era5Stat" by (simp add: eq)
    then obtain ub vb eb pb where
      "map_of (bands img) ''u_component_of_wind_10m'' = Some ub"
      "map_of (bands img) ''v_component_of_wind_10m'' = Some vb"
      "map_of (bands img) ''total_evaporation_hourly'' = Some eb"
      "map_of (bands img) ''total_precipitation_hourly'' = Some pb"
      "era5Stat = [(''wind'', meanOf (valuesUnder (magnitude ub vb) (geometry m) scale)),
             (''evap'', meanOf (valuesUnder eb (geometry m) scale)),
             (''precip'', meanOf (valuesUnder pb (geometry m) scale))]"
      unfolding era5Stats_Some by blast
    with nv have "era5Stat = [(''wind'', Null), (''evap'', Null), (''precip'', Null)]"
      by (simp add: noValidPixel_band valuesUnder_magnitude_empty)
    with e g4 g5 g6 show ?thesis
      by (auto simp: era5Stats_None Dictionary_get_def)
  qed
  have sv: "slopeM = Null"
    if a: "slope ee = Inr img" and nv: "noValidPixel (geometry m) img" for img
  proof -
    from a obtain b where b: "map_of (bands (NASADEM_HGT ee)) ''elevation'' = Some b"
      and i: "bands img = [(''slope'', slopeAlgorithm ee b)]"
      unfolding slope_Inr by auto
    from i nv have "valuesUnder (slopeAlgorithm ee b) (geometry m) scale = []"
      by (simp add: noValidPixel_def)
    with sl b show ?thesis by (simp add: eq slopeMean_Inr)
  qed
  have dv: "elevationM = Null"
    if a: "dem ee = Inr img" and nv: "noValidPixel (geometry m) img" for img
  proof -
    from a obtain b where b: "map_of (bands (NASADEM_HGT ee)) ''elevation'' = Some b"
      and i: "bands img = [(''elevation'', b)]"
      unfolding dem_Inr by auto
    from i nv have "valuesUnder b (geometry m) scale = []"
      by (simp add: noValidPixel_def)
    with el b show ?thesis by (simp add: eq elevationMean_Inr)
  qed
  show ?thesis
    using temp nv pv ev sv dv by (simp add: r rr fieldOf_def isOK_def)
qed

theorem no_valid_pixel_yields_sentinel_witness:
  "validEvent maskedEE eventA1 (Fire maskedEE) \<and> validCatalogues maskedEE \<and>
   Date (parseDate maskedEE) (Feature_get eventA1 ''CONT_DATE'') = Inr eventDate \<and>
   idMatches maskedEE eventA1 (Fire maskedEE) = Inr [eventA1] \<and>
   temperatureImage maskedEE eventDate =
     Inr (Some (celsiusImage (snapshot eventDate [(''LST_Day_1km'', masked)]))) \<and>
   noValidPixel (geometry eventA1)
     (celsiusImage (snapshot eventDate [(''LST_Day_1km'', masked)])) \<and>
   ndviImage maskedEE eventDate = Some (snapshot eventDate [(''NDVI'', masked)]) \<and>
   noValidPixel (geometry eventA1) (snapshot eventDate [(''NDVI'', masked)]) \<and>
   populationImage maskedEE eventDate =
     Some (snapshot 1577836800000 [(''population_density'', masked)]) \<and>
   noValidPixel (geometry eventA1)
     (snapshot 1577836800000 [(''population_density'', masked)]) \<and>
   ERA5Image maskedEE eventDate = Some (snapshot (eventDate + 14 * 3600000) maskedBands) \<and>
   noValidPixel (geometry eventA1) (snapshot (eventDate + 14 * 3600000) maskedBands) \<and>
   dem maskedEE =
     Inr \<lparr>time_start = None, time_end = None, bands = [(''elevation'', masked)]\<rparr> \<and>
   noValidPixel (geometry eventA1)
     \<lparr>time_start = None, time_end = None, bands = [(''elevation'', masked)]\<rparr> \<and>
   isOK (slope maskedEE) \<and>
   fieldOf (extractData maskedEE eventA1 (Fire maskedEE) (Num 1)) ''temperatureMean'' = Some Null \<and>
   fieldOf (extractData maskedEE eventA1 (Fire maskedEE) (Num 1)) ''Min_Temperature'' = Some Null \<and>
   fieldOf (extractData maskedEE eventA1 (Fire maskedEE) (Num 1)) ''Max_Temperature'' = Some Null \<and>
   fieldOf (extractData maskedEE eventA1 (Fire maskedEE) (Num 1)) ''ndviMean'' = Some Null \<and>
   fieldOf (extractData maskedEE eventA1 (Fire maskedEE) (Num 1)) ''population'' = Some Null \<and>
   fieldOf (extractData maskedEE eventA1 (Fire maskedEE) (Num 1)) ''windspeed'' = Some Null \<and>
   fieldOf (extractData maskedEE eventA1 (Fire maskedEE) (Num 1)) ''evaporation'' = Some Null \<and>
   fieldOf (extractData maskedEE eventA1 (Fire maskedEE) (Num 1)) ''precipitation'' = Some Null \<and>
   fieldOf (extractData maskedEE eventA1 (Fire maskedEE) (Num 1)) ''slope'' = Some Null \<and>
   fieldOf (extractData maskedEE eventA1 (Fire maskedEE) (Num 1)) ''elevation'' = Some Null"
proof -
  note hyps = event_variants(2) catalogues_variants(2) date_example [of maskedEE]
    match_variants(2)
  note th = no_valid_pixel_yields_sentinel [OF hyps, of "Num 1"]
  note t = th [THEN conjunct2, THEN conjunct1, rule_format,
      OF conjI [OF masked_images(1) masked_no_valid_pixel(1)]]
  note n = th [THEN conjunct2, THEN conjunct2, THEN conjunct1, rule_format,
      OF conjI [OF masked_images(2) masked_no_valid_pixel(2)]]
  note p = th [THEN conjunct2, THEN conjunct2, THEN conjunct2, THEN conjunct1, rule_format,
      OF conjI [OF masked_images(3) masked_no_valid_pixel(2)]]
  note e = th [THEN conjunct2, THEN conjunct2, THEN conjunct2, THEN conjunct2, THEN conjunct1,
      rule_format, OF conjI [OF masked_images(4) masked_no_valid_pixel(3)]]
  note s = th [THEN conjunct2, THEN conjunct2, THEN conjunct2, THEN conjunct2, THEN conjunct2,
      THEN conjunct1, rule_format, OF conjI [OF masked_images(6) masked_no_valid_pixel(5)]]
  note d = th [THEN conjunct2, THEN conjunct2, THEN conjunct2, THEN conjunct2, THEN conjunct2,
      THEN conjunct2, rule_format, OF conjI [OF masked_images(5) masked_no_valid_pixel(4)]]
  have "isOK (slope maskedEE)"
    by (simp add: masked_images(6) isOK_def)
  with hyps masked_images(1-5) masked_no_valid_pixel(1-4) t n p e s d show ?thesis
    by (intro conjI) (assumption | simp)+
qed

subsection \<open>C9\<close>

text \<open>
  Claim C9. The ERA5 image found for an event is always an image of the catalogue
  acquired in hour 14 inside the window; the search finds nothing exactly when the
  window holds no image of hour 14, whatever other hourly images it holds, and the three
  climate results are then null.
\<close>

theorem ERA5_only_hour_14:
  "(ERA5Image ee T = Some img \<longrightarrow>
      img \<in> set (ERA5_LAND_HOURLY ee) \<and> acquiredAtHour 14 img \<and>
      inWindow (T - 86400000) (T + 86400000) img) \<and>
   (ERA5Image ee T = None \<longleftrightarrow>
      \<not> (\<exists>x \<in> set (ERA5_LAND_HOURLY ee).
            acquiredAtHour 14 x \<and> inWindow (T - 86400000) (T + 86400000) x)) \<and>
   (ERA5Image ee T = None \<longrightarrow>
      era5Stats geom (ERA5Image ee T) =
        Inr [(''wind'', Null), (''evap'', Null), (''precip'', Null)])"
proof -
  have "ERA5Image ee T = Some img \<Longrightarrow>
      img \<in> set (ERA5_LAND_HOURLY ee) \<and> acquiredAtHour 14 img \<and>
      inWindow (T - 86400000) (T + 86400000) img"
    unfolding ERA5Image_alt start_day end_day
    by (drule first_filter_Some) simp
  moreover have "ERA5Image ee T = None \<longleftrightarrow>
      \<not> (\<exists>x \<in> set (ERA5_LAND_HOURLY ee).
            acquiredAtHour 14 x \<and> inWindow (T - 86400000) (T + 86400000) x)"
    unfolding ERA5Image_alt start_day end_day first_eq_None
    by (auto simp: filter_empty_conv)
  moreover have "ERA5Image ee T = None \<Longrightarrow>
      era5Stats geom (ERA5Image ee T) =
        Inr [(''wind'', Null), (''evap'', Null), (''precip'', Null)]"
    by (simp add: era5Stats_None)
  ultimately show ?thesis by blast
qed

theorem ERA5_only_hour_14_witness:
  "ERA5Image exampleEE eventDate = Some (snapshot (eventDate + 14 * 3600000) era5Bands) \<and>
   acquiredAtHour 14 (snapshot (eventDate + 14 * 3600000) era5Bands) \<and>
   ERA5_LAND_HOURLY gapEE = [snapshot (eventDate + 13 * 3600000) era5Bands] \<and>
   inWindow (eventDate - 86400000) (eventDate + 86400000)
     (snapshot (eventDate + 13 * 3600000) era5Bands) \<and>
   ERA5Image gapEE eventDate = None \<and>
   era5Stats polygonP (ERA5Image gapEE eventDate) =
     Inr [(''wind'', Null), (''evap'', Null), (''precip'', Null)]"
proof -
  note ex = ERA5_only_hour_14 [of exampleEE eventDate
      "snapshot (eventDate + 14 * 3600000) era5Bands" polygonP]
  note gap = ERA5_only_hour_14 [of gapEE eventDate
      "snapshot (eventDate + 13 * 3600000) era5Bands" polygonP]
  have g: "ERA5_LAND_HOURLY gapEE = [snapshot (eventDate + 13 * 3600000) era5Bands]"
    by (simp add: gapEE_def exampleEE_def)
  have w: "inWindow (eventDate - 86400000) (eventDate + 86400000)
     (snapshot (eventDate + 13 * 3600000) era5Bands)"
    by (simp add: inWindow_def snapshot_def)
  have h: "\<not> acquiredAtHour 14 (snapshot (eventDate + 13 * 3600000) era5Bands)"
    by (simp add: acquiredAtHour_def snapshot_def eventDate_def)
  from ex ERA5Image_example have a: "acquiredAtHour 14 (snapshot (eventDate + 14 * 3600000) era5Bands)"
    by blast
  from gap g h have n: "ERA5Image gapEE eventDate = None"
    by simp
  with gap have "era5Stats polygonP (ERA5Image gapEE eventDate) =
     Inr [(''wind'', Null), (''evap'', Null), (''precip'', Null)]"
    by blast
  with ERA5Image_example a g w n show ?thesis by blast
qed

subsection \<open>C10\<close>

text \<open>
  Claim C10. The geometry of the aggregations is the geometry of the first feature of
  the backing collection whose ID equals the ID of the event. For an ID that is not null
  the features found are those of the collection with that ID, in its order. When none
  is found the extraction fails. When the first found is \<open>m\<close>, the extraction returns
  a record exactly when the date is readable and every source yields a result over the
  geometry of \<open>m\<close>, and the record holds these results: the temperature statistics,
  the NDVI, population and climate means, and the slope and elevation means are all
  taken over the geometry of \<open>m\<close>. The geometry of the event itself is never read.
\<close>

theorem geometry_fetched_by_ID:
  "(Feature_get feat ''ID'' \<noteq> Null \<longrightarrow>
      idMatches ee feat fc =
        Inr (filter (\<lambda>f. map_of (properties f) ''ID'' = Some (Feature_get feat ''ID'')) fc)) \<and>
   (idMatches ee feat fc = Inr [] \<longrightarrow>
      extractData ee feat fc st = Inl (NullArgument ''feature'')) \<and>
   (idMatches ee feat fc = Inr (m # ms) \<longrightarrow>
      (extractData ee feat fc st = Inr r \<longleftrightarrow>
         (\<exists>T tImg tempStat ndviM popM era5Stat slopeM elevationM tMean tMin tMax
             wind evap precip.
            Date (parseDate ee) (Feature_get feat ''CONT_DATE'') = Inr T \<and>
            temperatureImage ee T = Inr tImg \<and>
            tempStats (geometry m) tImg = Inr tempStat \<and>
            ndviMean (geometry m) (ndviImage ee T) = Inr ndviM \<and>
            popMean (geometry m) (populationImage ee T) = Inr popM \<and>
            era5Stats (geometry m) (ERA5Image ee T) = Inr era5Stat \<and>
            slopeMean ee (geometry m) = Inr slopeM \<and>
            elevationMean ee (geometry m) = Inr elevationM \<and>
            Dictionary_get tempStat ''LST_Day_1km_mean'' = Inr tMean \<and>
            Dictionary_get tempStat ''LST_Day_1km_min'' = Inr tMin \<and>
            Dictionary_get tempStat ''LST_Day_1km_max'' = Inr tMax \<and>
            Dictionary_get era5Stat ''wind'' = Inr wind \<and>
            Dictionary_get era5Stat ''evap'' = Inr evap \<and>
            Dictionary_get era5Stat ''precip'' = Inr precip \<and>
            r = Feature None
              [(''ID'', Feature_get feat ''ID''),
               (''creationDate'', DateV (start T)),
               (''Lat'', Feature_get feat ''Lat''), (''Long'', Feature_get feat ''Long''),
               (''temperatureMean'', tMean),
               (''Min_Temperature'', tMin),
               (''Max_Temperature'', tMax),
               (''ndviMean'', ndviM),
               (''slope'', slopeM),
               (''elevation'', elevationM),
               (''Dis_Road'', Feature_get feat ''D_Road''),
               (''Dis_Water'', Feature_get feat ''D_Water''),
               (''population'', popM),
               (''windspeed'', wind),
               (''evaporation'', evap),
               (''precipitation'', precip),
               (''fire'', st)]))) \<and>
   extractData ee (feat\<lparr>geometry := g\<rparr>) fc st = extractData ee feat fc st"
proof (intro conjI impI)
  assume "Feature_get feat ''ID'' \<noteq> Null"
  then show "idMatches ee feat fc =
      Inr (filter (\<lambda>f. map_of (properties f) ''ID'' = Some (Feature_get feat ''ID'')) fc)"
    by (rule filter_eq_not_null)
next
  assume "idMatches ee feat fc = Inr []"
  then show "extractData ee feat fc st = Inl (NullArgument ''feature'')"
    by (rule extractData_no_match)
next
  assume m: "idMatches ee feat fc = Inr (m # ms)"
  show "extractData ee feat fc st = Inr r \<longleftrightarrow>
         (\<exists>T tImg tempStat ndviM popM era5Stat slopeM elevationM tMean tMin tMax
             wind evap precip.
            Date (parseDate ee) (Feature_get feat ''CONT_DATE'') = Inr T \<and>
            temperatureImage ee T = Inr tImg \<and>
            tempStats (geometry m) tImg = Inr tempStat \<and>
            ndviMean (geometry m) (ndviImage ee T) = Inr ndviM \<and>
            popMean (geometry m) (populationImage ee T) = Inr popM \<and>
            era5Stats (geometry m) (ERA5Image ee T) = Inr era5Stat \<and>
            slopeMean ee (geometry m) = Inr slopeM \<and>
            elevationMean ee (geometry m) = Inr elevationM \<and>
            Dictionary_get tempStat ''LST_Day_1km_mean'' = Inr tMean \<and>
            Dictionary_get tempStat ''LST_Day_1km_min'' = Inr tMin \<and>
            Dictionary_get tempStat ''LST_Day_1km_max'' = Inr tMax \<and>
            Dictionary_get era5Stat ''wind'' = Inr wind \<and>
            Dictionary_get era5Stat ''evap'' = Inr evap \<and>
            Dictionary_get era5Stat ''precip'' = Inr precip \<and>
            r = Feature None
              [(''ID'', Feature_get feat ''ID''),
               (''creationDate'', DateV (start T)),
               (''Lat'', Feature_get feat ''Lat''), (''Long'', Feature_get feat ''Long''),
               (''temperatureMean'', tMean),
               (''Min_Temperature'', tMin),
               (''Max_Temperature'', tMax),
               (''ndviMean'', ndviM),
               (''slope'', slopeM),
               (''elevation'', elevationM),
               (''Dis_Road'', Feature_get feat ''D_Road''),
               (''Dis_Water'', Feature_get feat ''D_Water''),
               (''population'', popM),
               (''windspeed'', wind),
               (''evaporation'', evap),
               (''precipitation'', precip),
               (''fire'', st)])"
    unfolding extractData_Inr m by simp
next
  show "extractData ee (feat\<lparr>geometry := g\<rparr>) fc st = extractData ee feat fc st"
    by (simp add: extractData_def Feature_get_def)
qed

theorem geometry_fetched_by_ID_witness:
  "Feature_get eventB2 ''ID'' = Str ''B2'' \<and>
   idMatches exampleEE eventB2 [eventA1] = Inr [] \<and>
   extractData exampleEE eventB2 [eventA1] (Num 1) = Inl (NullArgument ''feature'') \<and>
   idMatches duplicateEE eventA1twin (Fire duplicateEE) = Inr [eventA1, eventA1twin] \<and>
   geometry eventA1 = polygonP \<and> geometry eventA1twin = polygonQ \<and>
   elevationMean duplicateEE polygonP = Inr (Num 100) \<and>
   elevationMean duplicateEE polygonQ = Inr (Num 900) \<and>
   fieldOf (extractData duplicateEE eventA1twin (Fire duplicateEE) (Num 1)) ''elevation'' =
     Some (Num 100) \<and>
   extractData duplicateEE (eventA1\<lparr>geometry := polygonQ\<rparr>) (Fire duplicateEE) (Num 1) =
     extractData duplicateEE eventA1 (Fire duplicateEE) (Num 1)"
proof -
  have id: "Feature_get eventB2 ''ID'' = Str ''B2''"
    by (simp add: Feature_get_def eventB2_def)
  note none = geometry_fetched_by_ID [of eventB2 exampleEE "[eventA1]" "Num 1"]
  from none id have a: "idMatches exampleEE eventB2 [eventA1] = Inr []"
    by (simp add: eventA1_def)
  with none have b: "extractData exampleEE eventB2 [eventA1] (Num 1) =
      Inl (NullArgument ''feature'')"
    by simp
  define r where "r = Feature None
       [(''ID'', Feature_get eventA1twin ''ID''),
        (''creationDate'', DateV (start eventDate)),
        (''Lat'', Feature_get eventA1twin ''Lat''), (''Long'', Feature_get eventA1twin ''Long''),
        (''temperatureMean'', Num (celsius 15500)),
        (''Min_Temperature'', Num (celsius 15500)),
        (''Max_Temperature'', Num (celsius 15500)),
        (''ndviMean'', Num 0.5), (''slope'', Num 0), (''elevation'', Num 100),
        (''Dis_Road'', Feature_get eventA1twin ''D_Road''),
        (''Dis_Water'', Feature_get eventA1twin ''D_Water''), (''population'', Num 12),
        (''windspeed'', Num 5), (''evaporation'', Num (- 0.001)),
        (''precipitation'', Num 0.002), (''fire'', Num 1)]"
  note twin = geometry_fetched_by_ID [of eventA1twin duplicateEE "Fire duplicateEE" "Num 1"
      eventA1 "[eventA1twin]" r polygonQ]
  have c: "idMatches duplicateEE eventA1twin (Fire duplicateEE) = Inr [eventA1, eventA1twin]"
    unfolding Fire_duplicate by (rule twin_example)
  with twin have "extractData duplicateEE eventA1twin (Fire duplicateEE) (Num 1) = Inr r"
    by (simp add: r_def twin_example geometry_example example_images example_statistics
        terrain_example Dictionary_get_def)
  then have d: "fieldOf (extractData duplicateEE eventA1twin (Fire duplicateEE) (Num 1))
      ''elevation'' = Some (Num 100)"
    by (simp add: fieldOf_def r_def Feature_def)
  from geometry_fetched_by_ID [of eventA1 duplicateEE "Fire duplicateEE" "Num 1" _ _ _ polygonQ]
  have e: "extractData duplicateEE (eventA1\<lparr>geometry := polygonQ\<rparr>) (Fire duplicateEE) (Num 1) =
     extractData duplicateEE eventA1 (Fire duplicateEE) (Num 1)"
    by simp
  from id a b c d e show ?thesis
    by (simp add: geometry_example terrain_example)
qed

end
